theory Spec2Isabelle
  imports Complex_Main "HOL-Library.Char_ord" "HOL-Library.List_Lexorder"
    "HOL-Library.Product_Lexorder" "HOL-Library.Option_ord"
begin

chapter \<open>The model\<close>

text \<open>
  The program computes financial indicators over the constituents of equity indices: a
  builder merges raw constituent and financial records into one canonical table, the
  statistics modules group the table by index, and the renderer derives a narrative
  summary from the metrics and gives templates safe access to them.  Each function is
  modelled by a function of the same name.  A data frame is the list of its rows, and
  the pandas operations the code calls are written out on lists (\<open>sort_key\<close> is a
  stable sort, as pandas' sort over several columns is).  Python's floats are exact
  reals: sums and quotients are not rounded, and NaN occurs only as the missing cell.
  Strings are lists of characters, compared as Python compares them.
\<close>

section \<open>Errors\<close>

text \<open>
  Every exception the modelled Python can raise is a value.  \<open>ValueError\<close> carries the
  message of the statement that raised it, \<open>KeyError\<close> the missing key.  \<open>TypeError\<close> is
  raised by arithmetic, comparison and item access on values that do not support them,
  \<open>AttributeError\<close> by an attribute access the object does not have.
\<close>

datatype error = ValueError string | TypeError | AttributeError | KeyError string

section \<open>Metrics documents and the narrative summary (render/common.py)\<close>

text \<open>
  A metrics document is what \<^verbatim>\<open>json.load\<close> returns: objects are association lists
  (looked up with \<open>map_of\<close>), numbers are exact reals, \<open>JNull\<close> is Python's \<^verbatim>\<open>None\<close>.
\<close>

datatype json =
    JNull
  | JBool bool
  | JNum real
  | JStr string
  | JArr "json list"
  | JObj "(string \<times> json) list"

text \<open>
  \<^verbatim>\<open>safe_get(data, *keys)\<close>: walk the keys; a cursor that is not a dict, a key that is
  absent and a value that is \<^verbatim>\<open>None\<close> all give \<^verbatim>\<open>None\<close>.
\<close>

fun safe_get :: "json \<Rightarrow> string list \<Rightarrow> json" where
  "safe_get cursor [] = cursor"
| "safe_get cursor (key # keys) =
     (case cursor of
        JObj kvs \<Rightarrow>
          (case map_of kvs key of
             None \<Rightarrow> JNull
           | Some v \<Rightarrow> if v = JNull then JNull else safe_get v keys)
      | _ \<Rightarrow> JNull)"

declare safe_get.simps [simp del]

text \<open>
  The number a value stands for in Python arithmetic: a float or int is itself, a bool
  is 1 or 0, nothing else is a number.
\<close>

fun num_val :: "json \<Rightarrow> real option" where
  "num_val (JNum r) = Some r"
| "num_val (JBool b) = Some (if b then 1 else 0)"
| "num_val _ = None"

text \<open>\<^verbatim>\<open>y - t\<close>: defined on numbers, a \<^verbatim>\<open>TypeError\<close> on everything else JSON holds.\<close>

definition py_sub :: "json \<Rightarrow> json \<Rightarrow> error + real" where
  "py_sub y t =
     (case (num_val y, num_val t) of
        (Some a, Some b) \<Rightarrow> Inr (a - b)
      | _ \<Rightarrow> Inl TypeError)"

text \<open>
  \<^verbatim>\<open>y > t\<close>: numbers compare by value and strings lexicographically; a mixed pair and
  a pair of dicts raise \<^verbatim>\<open>TypeError\<close>.  Two lists are folded into the same error: where
  Python can compare them, the float format that follows in \<^verbatim>\<open>derive_logic_summary\<close>
  raises \<^verbatim>\<open>TypeError\<close> on either of them.
\<close>

definition py_gt :: "json \<Rightarrow> json \<Rightarrow> error + bool" where
  "py_gt y t =
     (case (num_val y, num_val t) of
        (Some a, Some b) \<Rightarrow> Inr (a > b)
      | _ \<Rightarrow> (case (y, t) of (JStr a, JStr b) \<Rightarrow> Inr (a > b) | _ \<Rightarrow> Inl TypeError))"

text \<open>
  The float format specifications \<^verbatim>\<open>{x:.1f}\<close>, \<^verbatim>\<open>{x:.2f}\<close>, \<^verbatim>\<open>{x:.3f}\<close>: the result is
  the number to print (the model keeps it unrounded); a string raises \<^verbatim>\<open>ValueError\<close>,
  a list or dict \<^verbatim>\<open>TypeError\<close>.
\<close>

definition format_f :: "json \<Rightarrow> error + real" where
  "format_f v =
     (case num_val v of
        Some r \<Rightarrow> Inr r
      | None \<Rightarrow>
          (case v of
             JStr _ \<Rightarrow> Inl (ValueError ''Unknown format code f for object of type str'')
           | _ \<Rightarrow> Inl TypeError))"

text \<open>
  The bullets are f-strings over fixed Japanese sentences.  Each constructor is one of the
  thirteen sentences of \<^verbatim>\<open>derive_logic_summary\<close>, carrying the numbers its f-string
  formats.
\<close>

datatype bullet =
    PBR_higher real
  | PBR_lower real
  | PBR_missing
  | ROE_at_least real real
  | ROE_lower real
  | ROE_missing
  | DY_above real
  | DY_below real
  | DY_missing
  | HHI_higher real real
  | HHI_diversified real
  | HHI_missing
  | Top10_missing

datatype family = PBR | ROE | DY | HHI | Top10

fun family_of :: "bullet \<Rightarrow> family" where
  "family_of (PBR_higher _) = PBR"
| "family_of (PBR_lower _) = PBR"
| "family_of PBR_missing = PBR"
| "family_of (ROE_at_least _ _) = ROE"
| "family_of (ROE_lower _) = ROE"
| "family_of ROE_missing = ROE"
| "family_of (DY_above _) = DY"
| "family_of (DY_below _) = DY"
| "family_of DY_missing = DY"
| "family_of (HHI_higher _ _) = HHI"
| "family_of (HHI_diversified _) = HHI"
| "family_of HHI_missing = HHI"
| "family_of Top10_missing = Top10"

record summary =
  strengths :: "bullet list"
  weaknesses :: "bullet list"
  cautions :: "bullet list"

definition add_strength :: "bullet \<Rightarrow> summary \<Rightarrow> summary" where
  "add_strength b s = s\<lparr>strengths := strengths s @ [b]\<rparr>"

definition add_weakness :: "bullet \<Rightarrow> summary \<Rightarrow> summary" where
  "add_weakness b s = s\<lparr>weaknesses := weaknesses s @ [b]\<rparr>"

definition add_caution :: "bullet \<Rightarrow> summary \<Rightarrow> summary" where
  "add_caution b s = s\<lparr>cautions := cautions s @ [b]\<rparr>"

text \<open>Lines 118-135: the share of constituents with PBR below 1.\<close>

definition pbr_block :: "json \<Rightarrow> summary \<Rightarrow> error + summary" where
  "pbr_block pbr s =
     (let y_ratio = safe_get pbr [''lt1'', ''yomiuri333''];
          t_ratio = safe_get pbr [''lt1'', ''topix'']
      in if y_ratio \<noteq> JNull \<and> t_ratio \<noteq> JNull then
           (case py_sub y_ratio t_ratio of
              Inl e \<Rightarrow> Inl e
            | Inr diff \<Rightarrow>
                if diff > 0 then Inr (add_strength (PBR_higher (diff * 100)) s)
                else Inr (add_weakness (PBR_lower (\<bar>diff\<bar> * 100)) s))
         else Inr (add_caution PBR_missing s))"

text \<open>Lines 137-152: the ROE median.\<close>

definition roe_block :: "json \<Rightarrow> summary \<Rightarrow> error + summary" where
  "roe_block roe s =
     (let y_roe = safe_get roe [''median'', ''yomiuri333''];
          t_roe = safe_get roe [''median'', ''topix'']
      in if y_roe \<noteq> JNull \<and> t_roe \<noteq> JNull then
           (case py_sub y_roe t_roe of
              Inl e \<Rightarrow> Inl e
            | Inr diff \<Rightarrow>
                if diff \<ge> 0 then
                  (case format_f y_roe of
                     Inl e \<Rightarrow> Inl e
                   | Inr y \<Rightarrow>
                       (case format_f t_roe of
                          Inl e \<Rightarrow> Inl e
                        | Inr t \<Rightarrow> Inr (add_strength (ROE_at_least y t) s)))
                else Inr (add_weakness (ROE_lower \<bar>diff\<bar>) s))
         else Inr (add_caution ROE_missing s))"

text \<open>Lines 154-171: the mean dividend yield.\<close>

definition dy_block :: "json \<Rightarrow> summary \<Rightarrow> error + summary" where
  "dy_block dy s =
     (let y_dy = safe_get dy [''mean'', ''yomiuri333''];
          t_dy = safe_get dy [''mean'', ''topix'']
      in if y_dy \<noteq> JNull \<and> t_dy \<noteq> JNull then
           (case py_sub y_dy t_dy of
              Inl e \<Rightarrow> Inl e
            | Inr diff \<Rightarrow>
                if diff \<ge> 0 then Inr (add_strength (DY_above diff) s)
                else Inr (add_weakness (DY_below \<bar>diff\<bar>) s))
         else Inr (add_caution DY_missing s))"

text \<open>
  Lines 173-187: the sector HHI.  The benchmark is compared only when it is present; a
  present primary value with no benchmark takes the \<^verbatim>\<open>else\<close> branch.
\<close>

definition hhi_strength :: "json \<Rightarrow> summary \<Rightarrow> error + summary" where
  "hhi_strength y_hhi s =
     (case format_f y_hhi of
        Inl e \<Rightarrow> Inl e
      | Inr y \<Rightarrow> Inr (add_strength (HHI_diversified y) s))"

definition hhi_weakness :: "json \<Rightarrow> json \<Rightarrow> summary \<Rightarrow> error + summary" where
  "hhi_weakness y_hhi t_hhi s =
     (case format_f t_hhi of
        Inl e \<Rightarrow> Inl e
      | Inr t \<Rightarrow>
          (case format_f y_hhi of
             Inl e \<Rightarrow> Inl e
           | Inr y \<Rightarrow> Inr (add_weakness (HHI_higher t y) s)))"

definition hhi_block :: "json \<Rightarrow> summary \<Rightarrow> error + summary" where
  "hhi_block hhi s =
     (let y_hhi = safe_get hhi [''hhi'', ''yomiuri333''];
          t_hhi = safe_get hhi [''hhi'', ''topix'']
      in if y_hhi \<noteq> JNull then
           (if t_hhi \<noteq> JNull then
              (case py_gt y_hhi t_hhi of
                 Inl e \<Rightarrow> Inl e
               | Inr higher \<Rightarrow>
                   if higher then hhi_weakness y_hhi t_hhi s else hhi_strength y_hhi s)
            else hhi_strength y_hhi s)
         else Inr (add_caution HHI_missing s))"

text \<open>Lines 189-193: the extra caution for a missing top-10 weight.\<close>

definition top10_block :: "json \<Rightarrow> summary \<Rightarrow> summary" where
  "top10_block hhi s =
     (let top10 = safe_get hhi [''top10_weight'', ''yomiuri333'']
      in if top10 = JNull then add_caution Top10_missing s else s)"

definition empty_summary :: summary where
  "empty_summary = \<lparr>strengths = [], weaknesses = [], cautions = []\<rparr>"

definition derive_logic_summary :: "json \<Rightarrow> json \<Rightarrow> json \<Rightarrow> json \<Rightarrow> error + summary" where
  "derive_logic_summary pbr roe dy hhi =
     (case pbr_block pbr empty_summary of
        Inl e \<Rightarrow> Inl e
      | Inr s1 \<Rightarrow>
     (case roe_block roe s1 of
        Inl e \<Rightarrow> Inl e
      | Inr s2 \<Rightarrow>
     (case dy_block dy s2 of
        Inl e \<Rightarrow> Inl e
      | Inr s3 \<Rightarrow>
     (case hhi_block hhi s3 of
        Inl e \<Rightarrow> Inl e
      | Inr s4 \<Rightarrow> Inr (top10_block hhi s4)))))"

subsection \<open>Vocabulary for the properties of the summary\<close>

text \<open>How many bullets of a family a bucket holds, and how many the three buckets hold.\<close>

definition bucket_count :: "family \<Rightarrow> bullet list \<Rightarrow> nat" where
  "bucket_count f bs = length (filter (\<lambda>b. family_of b = f) bs)"

definition total_count :: "family \<Rightarrow> summary \<Rightarrow> nat" where
  "total_count f s =
     bucket_count f (strengths s) + bucket_count f (weaknesses s) + bucket_count f (cautions s)"

text \<open>
  A metrics document as the statistics modules write it: under the metric, each of the
  two indices is absent, null or a number.
\<close>

definition number_or_missing :: "json \<Rightarrow> string \<Rightarrow> bool" where
  "number_or_missing doc metric =
     ((safe_get doc [metric, ''yomiuri333''] = JNull
        \<or> num_val (safe_get doc [metric, ''yomiuri333'']) \<noteq> None)
      \<and> (safe_get doc [metric, ''topix''] = JNull
        \<or> num_val (safe_get doc [metric, ''topix'']) \<noteq> None))"

definition missing_either :: "json \<Rightarrow> string \<Rightarrow> bool" where
  "missing_either doc metric \<longleftrightarrow>
     safe_get doc [metric, ''yomiuri333''] = JNull \<or> safe_get doc [metric, ''topix''] = JNull"

definition adds_one :: "family \<Rightarrow> summary \<Rightarrow> summary \<Rightarrow> bool" where
  "adds_one F s s' \<longleftrightarrow>
     (\<exists>b. family_of b = F \<and>
        (s' = add_strength b s \<or> s' = add_weakness b s \<or> s' = add_caution b s))"

text \<open>Three concrete documents: a PBR tie, a document with no metrics, an HHI without benchmark.\<close>

definition tie_pbr :: json where
  "tie_pbr = JObj [(''lt1'', JObj [(''yomiuri333'', JNum (1/2)), (''topix'', JNum (1/2))])]"

definition no_metrics :: json where
  "no_metrics = JObj []"

definition primary_only_hhi :: json where
  "primary_only_hhi = JObj [(''hhi'', JObj [(''yomiuri333'', JNum (1/2))])]"

section \<open>The canonical table\<close>

text \<open>
  A data frame is its column names and its rows.  A cell of a numeric column is missing
  (\<open>None\<close>, pandas' NaN), a number, or a text that is still to be coerced; the text
  columns hold a string or are missing.  The fields of a row are those of the canonical
  dataset; a field whose column is not among \<open>columns\<close> is never read.
\<close>

datatype scalar = Number real | Text string

type_synonym cell = "scalar option"

record row =
  r_index :: "string option"
  r_code :: string
  r_name :: "string option"
  r_sector :: "string option"
  r_weight :: cell
  r_date :: "string option"
  r_pbr :: cell
  r_roe :: cell
  r_dy :: cell
  r_market_cap :: cell

record table =
  columns :: "string list"
  rows :: "row list"

text \<open>
  \<^verbatim>\<open>pd.to_numeric(column, errors="coerce")\<close>, cell by cell: a number stays, a missing
  cell stays missing, a text becomes what pandas' number parser reads in it, and missing
  when the parser rejects it.  The parser is a parameter of the model:
  \<open>parse s = None\<close> says that \<open>s\<close> is not the text of a number.
\<close>

fun to_numeric :: "(string \<Rightarrow> real option) \<Rightarrow> cell \<Rightarrow> real option" where
  "to_numeric parse None = None"
| "to_numeric parse (Some (Number r)) = Some r"
| "to_numeric parse (Some (Text s)) = parse s"

text \<open>
  \<^verbatim>\<open>dataset.groupby("index")\<close>: the groups in ascending order of their key, each with its
  rows in table order; rows with a missing index belong to no group.
\<close>

definition group_keys :: "row list \<Rightarrow> string list" where
  "group_keys rs = sort (remdups (List.map_filter r_index rs))"

definition group_rows :: "string \<Rightarrow> row list \<Rightarrow> row list" where
  "group_rows k rs = filter (\<lambda>r. r_index r = Some k) rs"

definition groupby_index :: "row list \<Rightarrow> (string \<times> row list) list" where
  "groupby_index rs = map (\<lambda>k. (k, group_rows k rs)) (group_keys rs)"

text \<open>\<^verbatim>\<open>subset[col].dropna()\<close> after the coercion: the numbers of a column, in row order.\<close>

definition dropna :: "(string \<Rightarrow> real option) \<Rightarrow> (row \<Rightarrow> cell) \<Rightarrow> row list \<Rightarrow> real list" where
  "dropna parse col subset_rows = List.map_filter (\<lambda>r. to_numeric parse (col r)) subset_rows"

text \<open>
  The descriptive statistics of pandas on a series with at least one value: mean, median
  (the middle of the sorted values, the mean of the two middle ones for an even count)
  and the quantile with linear interpolation.
\<close>

definition mean :: "real list \<Rightarrow> real" where
  "mean xs = sum_list xs / real (length xs)"

definition median :: "real list \<Rightarrow> real" where
  "median xs =
     (let s = sort xs; n = length s
      in if odd n then s ! (n div 2) else (s ! (n div 2 - 1) + s ! (n div 2)) / 2)"

definition quantile :: "real list \<Rightarrow> real \<Rightarrow> real" where
  "quantile xs q =
     (let s = sort xs;
          pos = q * real (length s - 1);
          lo = nat \<lfloor>pos\<rfloor>;
          hi = nat \<lceil>pos\<rceil>
      in s ! lo + (pos - real lo) * (s ! hi - s ! lo))"

section \<open>PBR statistics (analysis/pbr\_stats.py)\<close>

record pbr_metrics =
  pbr_lt1 :: "(string \<times> real option) list"
  pbr_mean :: "(string \<times> real option) list"
  pbr_median :: "(string \<times> real option) list"
  pbr_count :: "(string \<times> nat) list"

text \<open>
  One turn of the loop of \<^verbatim>\<open>compute_pbr_stats\<close>: the entries for \<open>index_name\<close> are written
  into the four dictionaries.  The group keys are distinct, so every assignment adds a key.
\<close>

definition pbr_group ::
  "(string \<Rightarrow> real option) \<Rightarrow> pbr_metrics \<Rightarrow> string \<times> row list \<Rightarrow> pbr_metrics" where
  "pbr_group parse metrics g =
     (let index_name = fst g;
          series = dropna parse r_pbr (snd g);
          count = length series;
          metrics = metrics\<lparr>pbr_count := pbr_count metrics @ [(index_name, count)]\<rparr>
      in if count = 0 then
           metrics\<lparr>pbr_lt1 := pbr_lt1 metrics @ [(index_name, None)],
                   pbr_mean := pbr_mean metrics @ [(index_name, None)],
                   pbr_median := pbr_median metrics @ [(index_name, None)]\<rparr>
         else
           (let lt1_ratio = real (length (filter (\<lambda>x. x < 1) series)) / real count
            in metrics\<lparr>pbr_lt1 := pbr_lt1 metrics @ [(index_name, Some lt1_ratio)],
                       pbr_mean := pbr_mean metrics @ [(index_name, Some (mean series))],
                       pbr_median := pbr_median metrics @ [(index_name, Some (median series))]\<rparr>))"

definition compute_pbr_stats :: "(string \<Rightarrow> real option) \<Rightarrow> table \<Rightarrow> error + pbr_metrics" where
  "compute_pbr_stats parse dataset =
     (if ''index'' \<notin> set (columns dataset) then
        Inl (ValueError ''Canonical dataset must include an 'index' column'')
      else if ''pbr'' \<notin> set (columns dataset) then
        Inl (ValueError ''Canonical dataset must include a 'pbr' column'')
      else
        Inr (foldl (pbr_group parse)
              \<lparr>pbr_lt1 = [], pbr_mean = [], pbr_median = [], pbr_count = []\<rparr>
              (groupby_index (rows dataset))))"

section \<open>ROE statistics (analysis/roe\_stats.py)\<close>

text \<open>\<^verbatim>\<open>QUANTILES = (0.25, 0.5, 0.75)\<close> with the keys \<^verbatim>\<open>str(int(q * 100))\<close>.\<close>

definition QUANTILES :: "(string \<times> real) list" where
  "QUANTILES = [(''25'', 1/4), (''50'', 1/2), (''75'', 3/4)]"

record roe_metrics =
  roe_median :: "(string \<times> real option) list"
  roe_quantiles :: "(string \<times> (string \<times> real option) list) list"
  roe_count :: "(string \<times> nat) list"

definition roe_group ::
  "(string \<Rightarrow> real option) \<Rightarrow> roe_metrics \<Rightarrow> string \<times> row list \<Rightarrow> roe_metrics" where
  "roe_group parse metrics g =
     (let index_name = fst g;
          series = dropna parse r_roe (snd g);
          count = length series;
          metrics = metrics\<lparr>roe_count := roe_count metrics @ [(index_name, count)]\<rparr>
      in if count = 0 then
           metrics\<lparr>roe_median := roe_median metrics @ [(index_name, None)],
                   roe_quantiles :=
                     map (\<lambda>(label, entries). (label, entries @ [(index_name, None)]))
                       (roe_quantiles metrics)\<rparr>
         else
           metrics\<lparr>roe_median := roe_median metrics @ [(index_name, Some (median series))],
                   roe_quantiles :=
                     map (\<lambda>(label, entries).
                            (label, entries @
                               [(index_name, map_option (quantile series) (map_of QUANTILES label))]))
                       (roe_quantiles metrics)\<rparr>)"

definition compute_roe_stats :: "(string \<Rightarrow> real option) \<Rightarrow> table \<Rightarrow> error + roe_metrics" where
  "compute_roe_stats parse dataset =
     (if ''index'' \<notin> set (columns dataset) then
        Inl (ValueError ''Canonical dataset must include an 'index' column'')
      else if ''roe'' \<notin> set (columns dataset) then
        Inl (ValueError ''Canonical dataset must include a 'roe' column'')
      else
        Inr (foldl (roe_group parse)
              \<lparr>roe_median = [], roe_quantiles = map (\<lambda>(label, q). (label, [])) QUANTILES,
               roe_count = []\<rparr>
              (groupby_index (rows dataset))))"

section \<open>Sector concentration (analysis/sector\_hhi.py)\<close>

text \<open>
  \<^verbatim>\<open>_resolve_weights\<close>.  \<^verbatim>\<open>subset.get("weight")\<close> is \<^verbatim>\<open>None\<close> when the table has no weight
  column; \<^verbatim>\<open>pd.to_numeric\<close> of \<^verbatim>\<open>None\<close> is a scalar NaN, and the call of its \<^verbatim>\<open>notna\<close> fails
  with \<^verbatim>\<open>AttributeError\<close>.  With the column, the stated weights are used, missing ones
  as 0, if any is stated, and 1 for every row otherwise; a total that is not positive
  falls back to 1 for every row; the weights are divided by their total.
\<close>

definition fillna :: "real \<Rightarrow> real option list \<Rightarrow> real list" where
  "fillna d ws = map (\<lambda>w. case w of None \<Rightarrow> d | Some x \<Rightarrow> x) ws"

definition resolve_weights ::
  "(string \<Rightarrow> real option) \<Rightarrow> string list \<Rightarrow> row list \<Rightarrow> error + real list" where
  "resolve_weights parse cols subset_rows =
     (if ''weight'' \<notin> set cols then Inl AttributeError
      else
        (let stated = map (\<lambda>r. to_numeric parse (r_weight r)) subset_rows;
             weights = (if list_ex (\<lambda>w. w \<noteq> None) stated then fillna 0 stated
                        else map (\<lambda>r. 1) subset_rows);
             total = sum_list weights;
             weights = (if total \<le> 0 then map (\<lambda>r. 1) subset_rows else weights);
             total = (if total \<le> 0 then sum_list weights else total)
         in Inr (map (\<lambda>w. w / total) weights)))"

text \<open>
  \<^verbatim>\<open>weights.groupby(sector_series).sum()\<close>: one running sum per sector, each weight added
  to the sum of its sector.
\<close>

fun add_to_group :: "string \<Rightarrow> real \<Rightarrow> (string \<times> real) list \<Rightarrow> (string \<times> real) list" where
  "add_to_group k w [] = [(k, w)]"
| "add_to_group k w ((k', v) # acc) =
     (if k = k' then (k', v + w) # acc else (k', v) # add_to_group k w acc)"

definition groupby_sum :: "string list \<Rightarrow> real list \<Rightarrow> (string \<times> real) list" where
  "groupby_sum keys ws = foldl (\<lambda>acc (k, w). add_to_group k w acc) [] (zip keys ws)"

record hhi_metrics =
  hhi_hhi :: "(string \<times> real) list"
  hhi_top10_weight :: "(string \<times> real) list"
  hhi_constituents :: "(string \<times> nat) list"

definition sector_series :: "row list \<Rightarrow> string list" where
  "sector_series subset_rows = map (\<lambda>r. case r_sector r of None \<Rightarrow> ''Unknown'' | Some s \<Rightarrow> s) subset_rows"

definition hhi_value :: "row list \<Rightarrow> real list \<Rightarrow> real" where
  "hhi_value subset_rows weights =
     (let sector_weights = groupby_sum (sector_series subset_rows) weights
      in sum_list (map (\<lambda>(s, w). w ^ 2) sector_weights))"

definition top10_value :: "real list \<Rightarrow> real" where
  "top10_value weights = sum_list (take 10 (rev (sort weights)))"

fun hhi_groups ::
  "(string \<Rightarrow> real option) \<Rightarrow> string list \<Rightarrow> hhi_metrics \<Rightarrow> (string \<times> row list) list
     \<Rightarrow> error + hhi_metrics" where
  "hhi_groups parse cols metrics [] = Inr metrics"
| "hhi_groups parse cols metrics ((index_name, subset_rows) # groups) =
     (case resolve_weights parse cols subset_rows of
        Inl e \<Rightarrow> Inl e
      | Inr weights \<Rightarrow>
          hhi_groups parse cols
            (metrics\<lparr>hhi_hhi := hhi_hhi metrics @ [(index_name, hhi_value subset_rows weights)],
                     hhi_top10_weight :=
                       hhi_top10_weight metrics @ [(index_name, top10_value weights)],
                     hhi_constituents :=
                       hhi_constituents metrics @ [(index_name, length subset_rows)]\<rparr>)
            groups)"

definition compute_concentration_metrics ::
  "(string \<Rightarrow> real option) \<Rightarrow> table \<Rightarrow> error + hhi_metrics" where
  "compute_concentration_metrics parse dataset =
     (if ''index'' \<notin> set (columns dataset) then
        Inl (ValueError ''Canonical dataset must include an 'index' column'')
      else if ''sector'' \<notin> set (columns dataset) then
        Inl (ValueError ''Canonical dataset must include a 'sector' column'')
      else
        hhi_groups parse (columns dataset)
          \<lparr>hhi_hhi = [], hhi_top10_weight = [], hhi_constituents = []\<rparr>
          (groupby_index (rows dataset)))"

subsection \<open>Vocabulary for the properties of the statistics\<close>

text \<open>
  The canonical table as \<^verbatim>\<open>build_canonical\<close> writes it: the ten columns, every row with an
  index, and the numeric columns coerced (a number or missing, never a text).
\<close>

definition numeric_cell :: "cell \<Rightarrow> bool" where
  "numeric_cell c = (case c of Some (Text s) \<Rightarrow> False | _ \<Rightarrow> True)"

definition canonical_columns :: "string list" where
  "canonical_columns =
     [''index'', ''code'', ''name'', ''sector'', ''weight'', ''date'', ''pbr'', ''roe'', ''dy'',
      ''market_cap'']"

definition canonical_table :: "table \<Rightarrow> bool" where
  "canonical_table t \<longleftrightarrow>
     set canonical_columns \<subseteq> set (columns t) \<and>
     list_all (\<lambda>r. r_index r \<noteq> None \<and> numeric_cell (r_weight r) \<and> numeric_cell (r_pbr r)
                 \<and> numeric_cell (r_roe r) \<and> numeric_cell (r_dy r)
                 \<and> numeric_cell (r_market_cap r)) (rows t)"

text \<open>The number of rows with a value in a column.\<close>

definition non_missing :: "(row \<Rightarrow> 'a option) \<Rightarrow> row list \<Rightarrow> nat" where
  "non_missing col rs = length (filter (\<lambda>r. col r \<noteq> None) rs)"

text \<open>The sum of the weights paired with a sector.\<close>

definition sector_total :: "string \<Rightarrow> (string \<times> real) list \<Rightarrow> real" where
  "sector_total s kvs = sum_list (map snd (filter (\<lambda>(k, w). k = s) kvs))"

text \<open>The sum over the sectors of a group of the squared sector totals, over the sector series.\<close>

definition hhi_by_sector :: "row list \<Rightarrow> real list \<Rightarrow> real" where
  "hhi_by_sector subset_rows weights =
     (\<Sum>s \<leftarrow> remdups (sector_series subset_rows).
        (sector_total s (zip (sector_series subset_rows) weights)) ^ 2)"

text \<open>
  The HHI in the words of the specification: the sum, over the sectors of the group, of
  the square of the summed weights of the rows of the sector, where a row with a missing
  sector belongs to the sector \<open>Unknown\<close>.
\<close>

definition sector_or_unknown :: "row \<Rightarrow> string" where
  "sector_or_unknown r = (case r_sector r of None \<Rightarrow> ''Unknown'' | Some s \<Rightarrow> s)"

definition hhi_spec :: "row list \<Rightarrow> real list \<Rightarrow> real" where
  "hhi_spec subset_rows weights =
     (\<Sum>s \<leftarrow> remdups (map sector_or_unknown subset_rows).
        (\<Sum>(r, w) \<leftarrow> zip subset_rows weights. if sector_or_unknown r = s then w else 0) ^ 2)"

text \<open>
  The resolved weights in the words of the specification, written without the functions
  of the code: a row counts with its stated weight, or with 0 when it states none; when
  some row states a weight and the total is positive each row gets its share of the
  total; otherwise each row gets the equal weight 1, which divided by the total is one
  over the number of rows.
\<close>

definition stated_or_zero :: "(string \<Rightarrow> real option) \<Rightarrow> row \<Rightarrow> real" where
  "stated_or_zero parse r = (if to_numeric parse (r_weight r) = None then 0
                             else the (to_numeric parse (r_weight r)))"

definition resolve_weights_spec :: "(string \<Rightarrow> real option) \<Rightarrow> row list \<Rightarrow> real list" where
  "resolve_weights_spec parse subset_rows =
     (let total = (\<Sum>r \<leftarrow> subset_rows. stated_or_zero parse r)
      in if list_ex (\<lambda>r. to_numeric parse (r_weight r) \<noteq> None) subset_rows \<and> total > 0
         then map (\<lambda>r. stated_or_zero parse r / total) subset_rows
         else map (\<lambda>r. 1 / real (length subset_rows)) subset_rows)"

text \<open>
  Concrete inputs: a number parser that rejects every text, the canonical table of the
  test suite, a table whose only row has neither sector nor weight, an empty table
  without weight and ROE columns, a table with one row and the index and sector columns
  only, and a group of three rows of which the second states no weight.
\<close>

definition no_parse :: "string \<Rightarrow> real option" where
  "no_parse s = None"

definition test_row :: "string \<Rightarrow> string \<Rightarrow> string \<Rightarrow> string \<Rightarrow> real \<Rightarrow> real \<Rightarrow> real \<Rightarrow> real \<Rightarrow> row" where
  "test_row i c n s w p r d =
     \<lparr>r_index = Some i, r_code = c, r_name = Some n, r_sector = Some s, r_weight = Some (Number w),
      r_date = Some ''2023-12-31'', r_pbr = Some (Number p), r_roe = Some (Number r),
      r_dy = Some (Number d), r_market_cap = None\<rparr>"

definition test_table :: table where
  "test_table =
     \<lparr>columns = canonical_columns,
      rows =
        [test_row ''topix'' ''1001'' ''Alpha'' ''Materials'' (6/10) (14/10) (75/10) (18/10),
         test_row ''topix'' ''2002'' ''Beta'' ''Industrials'' (25/100) (9/10) (55/10) (19/10),
         test_row ''topix'' ''3003'' ''Gamma'' ''IT'' (15/100) (21/10) (105/10) (12/10),
         test_row ''yomiuri333'' ''1001'' ''Alpha'' ''Materials'' (1/2) (8/10) 5 (26/10),
         test_row ''yomiuri333'' ''2002'' ''Beta'' ''Industrials'' (1/2) (12/10) (36/10) (21/10)]\<rparr>"

definition unknown_sector_table :: table where
  "unknown_sector_table =
     \<lparr>columns = canonical_columns,
      rows = [\<lparr>r_index = Some ''a'', r_code = ''1'', r_name = None, r_sector = None,
               r_weight = None, r_date = None, r_pbr = None, r_roe = None, r_dy = None,
               r_market_cap = None\<rparr>]\<rparr>"

definition no_weight_table :: table where
  "no_weight_table = \<lparr>columns = [''index'', ''sector'', ''pbr''], rows = []\<rparr>"

definition weightless_table :: table where
  "weightless_table =
     \<lparr>columns = [''index'', ''sector''],
      rows = [\<lparr>r_index = Some ''a'', r_code = ''1'', r_name = None, r_sector = Some ''IT'',
               r_weight = None, r_date = None, r_pbr = None, r_roe = None, r_dy = None,
               r_market_cap = None\<rparr>]\<rparr>"

definition weighted_row :: "cell \<Rightarrow> row" where
  "weighted_row w =
     \<lparr>r_index = Some ''a'', r_code = ''1'', r_name = None, r_sector = Some ''IT'',
      r_weight = w, r_date = None, r_pbr = None, r_roe = None, r_dy = None,
      r_market_cap = None\<rparr>"

definition partly_weighted_rows :: "row list" where
  "partly_weighted_rows =
     [weighted_row (Some (Number 1)), weighted_row None, weighted_row (Some (Number 3))]"

section \<open>Safe access to metrics in templates (render/common.py)\<close>

text \<open>
  The objects an access can return: a \<^verbatim>\<open>MetricAccessor\<close> over a dictionary, the
  \<^verbatim>\<open>MissingValue\<close> sentinel, or a value of the document returned as it is.  Such a
  value is neither null nor a dictionary (\<^verbatim>\<open>__getattr__\<close> turns these into the sentinel
  and into an accessor): it is a boolean, a number, a string or a list.
\<close>

datatype leaf_value = LBool bool | LNum real | LStr string | LArr "json list"

fun leaf_json :: "leaf_value \<Rightarrow> json" where
  "leaf_json (LBool b) = JBool b"
| "leaf_json (LNum r) = JNum r"
| "leaf_json (LStr s) = JStr s"
| "leaf_json (LArr xs) = JArr xs"

datatype pyobj = Accessor "(string \<times> json) list" | MissingValue | Leaf leaf_value

text \<open>\<^verbatim>\<open>MetricAccessor.__init__\<close> keeps \<^verbatim>\<open>data or {}\<close>; \<^verbatim>\<open>wrap_metrics\<close> calls it.\<close>

definition MetricAccessor :: "(string \<times> json) list option \<Rightarrow> pyobj" where
  "MetricAccessor data = Accessor (case data of None \<Rightarrow> [] | Some d \<Rightarrow> d)"

definition wrap_metrics :: "(string \<times> json) list option \<Rightarrow> pyobj" where
  "wrap_metrics data = MetricAccessor data"

text \<open>
  \<^verbatim>\<open>MetricAccessor.__getattr__\<close>: a dictionary is wrapped, an absent or null entry gives
  the sentinel, any other value is returned.
\<close>

definition accessor_getattr :: "(string \<times> json) list \<Rightarrow> string \<Rightarrow> pyobj" where
  "accessor_getattr data item =
     (case map_of data item of
        None \<Rightarrow> MissingValue
      | Some JNull \<Rightarrow> MissingValue
      | Some (JObj d) \<Rightarrow> MetricAccessor (Some d)
      | Some (JBool b) \<Rightarrow> Leaf (LBool b)
      | Some (JNum r) \<Rightarrow> Leaf (LNum r)
      | Some (JStr s) \<Rightarrow> Leaf (LStr s)
      | Some (JArr xs) \<Rightarrow> Leaf (LArr xs))"

text \<open>
  Python calls \<^verbatim>\<open>__getattr__\<close> only when its normal lookup does not find the name on the
  object.  The names the two classes define themselves are in the source (lines 205-236,
  with the instance attribute \<^verbatim>\<open>_data\<close> of line 222).  The names the interpreter gives
  every class and instance (\<^verbatim>\<open>__class__\<close>, \<^verbatim>\<open>__dict__\<close>, \<^verbatim>\<open>__doc__\<close>, ...) and the
  attributes of the built-in types of the values (\<^verbatim>\<open>real\<close> of a number, \<^verbatim>\<open>upper\<close> of a
  string, ...) are not in the source: they are a parameter of the model, the lookup
  \<open>builtin\<close>, and every property below holds whatever it finds.
\<close>

type_synonym lookup = "pyobj \<Rightarrow> string \<Rightarrow> bool"

fun class_attributes :: "pyobj \<Rightarrow> string list" where
  "class_attributes (Accessor d) =
     [''__init__'', ''_data'', ''__getattr__'', ''__getitem__'', ''to_dict'']"
| "class_attributes MissingValue = [''__getattr__'', ''__getitem__'', ''__bool__'', ''__str__'']"
| "class_attributes (Leaf v) = []"

definition has_attribute :: "lookup \<Rightarrow> pyobj \<Rightarrow> string \<Rightarrow> bool" where
  "has_attribute builtin obj name \<longleftrightarrow> name \<in> set (class_attributes obj) \<or> builtin obj name"

text \<open>
  An access is \<^verbatim>\<open>obj.item\<close> or \<^verbatim>\<open>obj[item]\<close>, the item a string as the signatures of the
  source say.  It returns an object of the model, raises, or returns an attribute that
  the object itself has (a bound method, the raw dictionary, a class, ...): such an
  attribute is none of the objects above, and what it is is not modelled.

  \<^verbatim>\<open>obj.item\<close> returns the attribute when the object has one of that name.  Otherwise it
  reaches \<^verbatim>\<open>__getattr__\<close> on an accessor and on the sentinel, and raises
  \<^verbatim>\<open>AttributeError\<close> on a value.  \<^verbatim>\<open>obj[item]\<close> calls \<^verbatim>\<open>__getitem__\<close>, which on an accessor
  calls \<^verbatim>\<open>self.__getattr__(item)\<close> itself and on the sentinel returns the sentinel; a
  boolean, a number, a string or a list cannot be indexed by a string (\<^verbatim>\<open>TypeError\<close>).
\<close>

datatype access = Attr string | Item string

datatype outcome = Returned pyobj | Raised error | Own_attribute

fun access_obj :: "lookup \<Rightarrow> pyobj \<Rightarrow> access \<Rightarrow> outcome" where
  "access_obj builtin obj (Attr item) =
     (if has_attribute builtin obj item then Own_attribute
      else (case obj of
              Accessor d \<Rightarrow> Returned (accessor_getattr d item)
            | MissingValue \<Rightarrow> Returned MissingValue
            | Leaf v \<Rightarrow> Raised AttributeError))"
| "access_obj builtin obj (Item item) =
     (case obj of
        Accessor d \<Rightarrow> Returned (accessor_getattr d item)
      | MissingValue \<Rightarrow> Returned MissingValue
      | Leaf v \<Rightarrow> Raised TypeError)"

text \<open>
  A chain of accesses, as \<^verbatim>\<open>metrics.pbr.lt1["topix"]\<close> in a template.  It is followed
  while the accesses return accessors, sentinels and values.  When an access returns an
  attribute of the object itself the chain has left them, and its outcome is that: the
  further accesses are Python's own on a bound method, a dictionary or a class, and they
  can raise.
\<close>

fun run_accesses :: "lookup \<Rightarrow> pyobj \<Rightarrow> access list \<Rightarrow> outcome" where
  "run_accesses builtin obj [] = Returned obj"
| "run_accesses builtin obj (a # path) =
     (case access_obj builtin obj a of
        Returned obj' \<Rightarrow> run_accesses builtin obj' path
      | Raised e \<Rightarrow> Raised e
      | Own_attribute \<Rightarrow> Own_attribute)"

text \<open>
  Truth value and text: \<^verbatim>\<open>MissingValue.__bool__\<close> and \<^verbatim>\<open>MissingValue.__str__\<close>; an
  accessor is an ordinary object (true); a value has the truth value Python gives it.
\<close>

fun truthy :: "pyobj \<Rightarrow> bool" where
  "truthy (Accessor d) = True"
| "truthy MissingValue = False"
| "truthy (Leaf (LBool b)) = b"
| "truthy (Leaf (LNum r)) = (r \<noteq> 0)"
| "truthy (Leaf (LStr s)) = (s \<noteq> [])"
| "truthy (Leaf (LArr xs)) = (xs \<noteq> [])"

definition MissingValue_str :: string where
  "MissingValue_str = ''''"

subsection \<open>Vocabulary for the properties of the accessor\<close>

text \<open>
  An access reaches the code of the class (\<^verbatim>\<open>__getattr__\<close> or \<^verbatim>\<open>__getitem__\<close>) when it is
  an item access, or an attribute access whose name the object does not have.
\<close>

fun reaches_getattr :: "lookup \<Rightarrow> pyobj \<Rightarrow> access \<Rightarrow> bool" where
  "reaches_getattr builtin obj (Attr item) = (\<not> has_attribute builtin obj item)"
| "reaches_getattr builtin obj (Item item) = True"

text \<open>A document with one number.\<close>

definition leaf_doc :: "(string \<times> json) list" where
  "leaf_doc = [(''a'', JNum 1)]"

section \<open>The canonical builder (ingest/csv\_to\_canonical.py)\<close>

subsection \<open>The raw documents\<close>

text \<open>
  A raw document is what \<^verbatim>\<open>yaml.safe_load\<close> returns.  Its shape is modelled in full (null,
  a list, a mapping from keys to documents, anything else); the entries of a list are the
  mappings the builder reads, or something that is not a mapping.  A mapping entry is a
  record of the keys the builder looks up, each absent, null or present with a value of
  the type the data model gives it.
\<close>

datatype 'a field = Absent | Null | Val 'a

datatype 'e item = Mapping 'e | NotMapping

datatype 'e document =
    DocNull
  | DocOther
  | DocList "'e item list"
  | DocDict "(string \<times> 'e document) list"

text \<open>\<^verbatim>\<open>entry.get(key)\<close> and \<^verbatim>\<open>entry.get(key, default)\<close>: only an absent key takes the default.\<close>

fun dict_get :: "'a field \<Rightarrow> 'a option" where
  "dict_get Absent = None"
| "dict_get Null = None"
| "dict_get (Val v) = Some v"

fun dict_get_default :: "'a \<Rightarrow> 'a field \<Rightarrow> 'a option" where
  "dict_get_default d Absent = Some d"
| "dict_get_default d Null = None"
| "dict_get_default d (Val v) = Some v"

text \<open>A security code is written as a string or as an integer.\<close>

datatype code_value = CodeStr string | CodeInt int

record constituent_entry =
  ce_index :: "string field"
  ce_code :: "code_value field"
  ce_name :: "string field"
  ce_sector :: "string field"
  ce_weight :: "scalar field"

text \<open>
  The date of a financial entry is modelled after \<^verbatim>\<open>pd.to_datetime(..., errors="coerce")\<close>:
  a value that pandas reads as a date is the timestamp it reads (an integer, later is
  greater), and a value it cannot read is null, as the coercion makes it.
\<close>

record financial_entry =
  fe_index :: "string field"
  fe_code :: "code_value field"
  fe_date :: "int field"
  fe_pbr :: "scalar field"
  fe_roe :: "scalar field"
  fe_dy :: "scalar field"
  fe_market_cap :: "scalar field"
  fe_weight :: "scalar field"

subsection \<open>\<^verbatim>\<open>str(code).strip()\<close>\<close>

definition digit_char :: "nat \<Rightarrow> char" where
  "digit_char d = char_of (48 + d)"

fun str_nat :: "nat \<Rightarrow> string" where
  "str_nat n = (if n < 10 then [digit_char n] else str_nat (n div 10) @ [digit_char (n mod 10)])"

declare str_nat.simps [simp del]

definition str_int :: "int \<Rightarrow> string" where
  "str_int i = (if i < 0 then CHR ''-'' # str_nat (nat (- i)) else str_nat (nat i))"

text \<open>\<^verbatim>\<open>str(entry.get("code", ""))\<close>: the text of a null code is \<^verbatim>\<open>None\<close>.\<close>

fun str_code :: "code_value field \<Rightarrow> string" where
  "str_code Absent = ''''"
| "str_code Null = ''None''"
| "str_code (Val (CodeStr s)) = s"
| "str_code (Val (CodeInt i)) = str_int i"

text \<open>The whitespace \<^verbatim>\<open>str.strip\<close> removes, within ASCII.\<close>

definition is_space :: "char \<Rightarrow> bool" where
  "is_space c = ((of_char c :: nat) \<in> {9, 10, 11, 12, 13, 28, 29, 30, 31, 32})"

definition strip :: "string \<Rightarrow> string" where
  "strip s = rev (dropWhile is_space (rev (dropWhile is_space s)))"

subsection \<open>\<^verbatim>\<open>_normalize_constituents\<close>\<close>

record constituent_row =
  c_index :: string
  c_code :: string
  c_name :: "string option"
  c_sector :: "string option"
  c_weight :: cell

text \<open>
  \<^verbatim>\<open>entry.get("index") or index_name or "yomiuri333"\<close>: the first of the three that is
  neither null nor the empty string.  The index is therefore never missing, and the
  \<^verbatim>\<open>fillna("yomiuri333")\<close> that follows changes nothing.
\<close>

definition constituent_index :: "string field \<Rightarrow> string option \<Rightarrow> string" where
  "constituent_index f index_name =
     (case dict_get f of
        Some s \<Rightarrow> if s \<noteq> [] then s else
          (case index_name of Some n \<Rightarrow> if n \<noteq> [] then n else ''yomiuri333''
           | None \<Rightarrow> ''yomiuri333'')
      | None \<Rightarrow>
          (case index_name of Some n \<Rightarrow> if n \<noteq> [] then n else ''yomiuri333''
           | None \<Rightarrow> ''yomiuri333''))"

definition constituent_record :: "string option \<Rightarrow> constituent_entry \<Rightarrow> constituent_row" where
  "constituent_record index_name entry =
     \<lparr>c_index = constituent_index (ce_index entry) index_name,
      c_code = strip (str_code (ce_code entry)),
      c_name = dict_get_default '''' (ce_name entry),
      c_sector = dict_get_default ''Unknown'' (ce_sector entry),
      c_weight = dict_get (ce_weight entry)\<rparr>"

text \<open>The inner loop: an entry that is not a mapping is skipped.\<close>

fun constituent_records :: "string option \<Rightarrow> constituent_entry item list \<Rightarrow> constituent_row list" where
  "constituent_records index_name [] = []"
| "constituent_records index_name (Mapping entry # entries) =
     constituent_record index_name entry # constituent_records index_name entries"
| "constituent_records index_name (NotMapping # entries) = constituent_records index_name entries"

text \<open>
  The outer loop over the pairs of index name and entries: null entries are skipped, a
  mapping with a \<^verbatim>\<open>records\<close> key stands for the value of that key, and the candidate must
  be a list.
\<close>

fun constituent_pairs ::
  "(string option \<times> constituent_entry document) list \<Rightarrow> constituent_row list
     \<Rightarrow> error + constituent_row list" where
  "constituent_pairs [] acc = Inr acc"
| "constituent_pairs ((index_name, entries) # pairs) acc =
     (if entries = DocNull then constituent_pairs pairs acc
      else
        (let candidate_entries =
               (case entries of
                  DocDict kvs \<Rightarrow> (case map_of kvs ''records'' of Some c \<Rightarrow> c | None \<Rightarrow> entries)
                | _ \<Rightarrow> entries)
         in case candidate_entries of
              DocList items \<Rightarrow>
                constituent_pairs pairs (acc @ constituent_records index_name items)
            | _ \<Rightarrow> Inl (ValueError ''Constituent entries must be provided as a list'')))"

definition normalize_constituents ::
  "constituent_entry document \<Rightarrow> error + constituent_row list" where
  "normalize_constituents raw_data =
     (let pairs = (case raw_data of
                     DocDict kvs \<Rightarrow> map (\<lambda>(k, v). (Some k, v)) kvs
                   | _ \<Rightarrow> [(None, raw_data)])
      in case constituent_pairs pairs [] of
           Inl e \<Rightarrow> Inl e
         | Inr found \<Rightarrow>
             if found = [] then Inl (ValueError ''No constituent records found'')
             else Inr found)"

subsection \<open>\<^verbatim>\<open>_normalize_financials\<close>\<close>

record financial_row =
  f_index :: "string option"
  f_code :: string
  f_date :: "int option"
  f_pbr :: cell
  f_roe :: cell
  f_dy :: cell
  f_market_cap :: cell
  f_weight :: cell

text \<open>\<^verbatim>\<open>normalized_entry.setdefault("index", index_name)\<close>.\<close>

definition setdefault_index :: "string \<Rightarrow> financial_entry \<Rightarrow> financial_entry" where
  "setdefault_index index_name entry =
     (if fe_index entry = Absent then entry\<lparr>fe_index := Val index_name\<rparr> else entry)"

text \<open>
  The grouped shape: the mappings of every list-valued key, each with the key as its
  default index; values that are not lists and entries that are not mappings are dropped.
\<close>

definition flatten_grouped ::
  "(string \<times> financial_entry document) list \<Rightarrow> financial_entry item list" where
  "flatten_grouped kvs =
     concat (map (\<lambda>(index_name, index_records).
                    case index_records of
                      DocList items \<Rightarrow>
                        concat (map (\<lambda>it. case it of
                                             Mapping entry \<Rightarrow> [Mapping (setdefault_index index_name entry)]
                                           | NotMapping \<Rightarrow> []) items)
                    | _ \<Rightarrow> []) kvs)"

definition financial_record :: "financial_entry \<Rightarrow> financial_row" where
  "financial_record entry =
     \<lparr>f_index = dict_get_default ''yomiuri333'' (fe_index entry),
      f_code = strip (str_code (fe_code entry)),
      f_date = dict_get (fe_date entry),
      f_pbr = dict_get (fe_pbr entry),
      f_roe = dict_get (fe_roe entry),
      f_dy = dict_get (fe_dy entry),
      f_market_cap = dict_get (fe_market_cap entry),
      f_weight = dict_get (fe_weight entry)\<rparr>"

fun financial_records :: "financial_entry item list \<Rightarrow> financial_row list" where
  "financial_records [] = []"
| "financial_records (Mapping entry # entries) = financial_record entry # financial_records entries"
| "financial_records (NotMapping # entries) = financial_records entries"

text \<open>
  The result is the list of rows of the frame; the empty list is the frame
  \<^verbatim>\<open>pd.DataFrame()\<close>, which has no rows and no columns.
\<close>

definition normalize_financials ::
  "financial_entry document \<Rightarrow> error + financial_row list" where
  "normalize_financials raw_data =
     (if raw_data = DocNull then Inr []
      else
        (let entries =
               (case raw_data of
                  DocDict kvs \<Rightarrow>
                    (case map_of kvs ''records'' of
                       Some recs \<Rightarrow> recs
                     | None \<Rightarrow> DocList (flatten_grouped kvs))
                | _ \<Rightarrow> raw_data)
         in case entries of
              DocList items \<Rightarrow> Inr (financial_records items)
            | _ \<Rightarrow> Inl (ValueError ''Financial records must be provided as a list'')))"

subsection \<open>\<^verbatim>\<open>build_canonical\<close>\<close>

text \<open>
  The sort key of \<^verbatim>\<open>sort_values(..., na_position="last")\<close> for a column with missing
  values: a missing value is greater than every value.
\<close>

definition na_last :: "'a option \<Rightarrow> bool \<times> 'a option" where
  "na_last x = (x = None, x)"

text \<open>\<^verbatim>\<open>drop_duplicates(subset=..., keep="last")\<close>: a row is kept when no later row has its key.\<close>

fun drop_duplicates_last :: "('a \<Rightarrow> 'k) \<Rightarrow> 'a list \<Rightarrow> 'a list" where
  "drop_duplicates_last key [] = []"
| "drop_duplicates_last key (x # xs) =
     (if key x \<in> key ` set xs then drop_duplicates_last key xs
      else x # drop_duplicates_last key xs)"

text \<open>
  Lines 137-148.  A frame with rows always has a date column (\<^verbatim>\<open>_normalize_financials\<close>
  writes the key into every record), so the branch without one is never taken.  pandas
  sorts several columns with a stable sort, as \<open>sort_key\<close> is.
\<close>

definition deduplicate :: "financial_row list \<Rightarrow> financial_row list" where
  "deduplicate financials_df =
     drop_duplicates_last (\<lambda>f. (f_index f, f_code f))
       (sort_key (\<lambda>f. (na_last (f_index f), f_code f, na_last (f_date f))) financials_df)"

text \<open>
  The left join on index and code: every constituent row, in order, with each financial
  row of its key, or with none.
\<close>

definition matches :: "constituent_row \<Rightarrow> financial_row \<Rightarrow> bool" where
  "matches c f \<longleftrightarrow> f_index f = Some (c_index c) \<and> f_code f = c_code c"

definition merge_left ::
  "constituent_row list \<Rightarrow> financial_row list \<Rightarrow> (constituent_row \<times> financial_row option) list" where
  "merge_left left right =
     concat (map (\<lambda>c. case filter (matches c) right of
                         [] \<Rightarrow> [(c, None)]
                       | ms \<Rightarrow> map (\<lambda>f. (c, Some f)) ms) left)"

text \<open>
  Lines 156-168 on one merged row: the constituent weight, filled from the financial
  weight where it is missing; the numeric columns coerced; the date printed as a day by
  \<^verbatim>\<open>strftime("%Y-%m-%d")\<close>, a parameter of the model.
\<close>

definition coerce :: "(string \<Rightarrow> real option) \<Rightarrow> cell \<Rightarrow> cell" where
  "coerce parse c = map_option Number (to_numeric parse c)"

definition fin_cell :: "(financial_row \<Rightarrow> 'a option) \<Rightarrow> financial_row option \<Rightarrow> 'a option" where
  "fin_cell col fo = (case fo of None \<Rightarrow> None | Some f \<Rightarrow> col f)"

definition canonical_row ::
  "(string \<Rightarrow> real option) \<Rightarrow> (int \<Rightarrow> string) \<Rightarrow> constituent_row \<times> financial_row option \<Rightarrow> row" where
  "canonical_row parse strftime m =
     (let c = fst m; fo = snd m
      in \<lparr>r_index = Some (c_index c),
          r_code = c_code c,
          r_name = c_name c,
          r_sector = c_sector c,
          r_weight = coerce parse (case c_weight c of None \<Rightarrow> fin_cell f_weight fo | Some w \<Rightarrow> Some w),
          r_date = map_option strftime (fin_cell f_date fo),
          r_pbr = coerce parse (fin_cell f_pbr fo),
          r_roe = coerce parse (fin_cell f_roe fo),
          r_dy = coerce parse (fin_cell f_dy fo),
          r_market_cap = coerce parse (fin_cell f_market_cap fo)\<rparr>)"

text \<open>
  \<^verbatim>\<open>build_canonical\<close> on the two loaded documents (a financials file that does not exist
  is the null document).  Merging with the frame \<^verbatim>\<open>pd.DataFrame()\<close>, which has no index
  and code columns, raises \<^verbatim>\<open>KeyError\<close>.
\<close>

definition build_canonical ::
  "(string \<Rightarrow> real option) \<Rightarrow> (int \<Rightarrow> string) \<Rightarrow> constituent_entry document
     \<Rightarrow> financial_entry document \<Rightarrow> error + table" where
  "build_canonical parse strftime constituents_raw financials_raw =
     (case normalize_constituents constituents_raw of
        Inl e \<Rightarrow> Inl e
      | Inr constituents_df \<Rightarrow>
          (case normalize_financials financials_raw of
             Inl e \<Rightarrow> Inl e
           | Inr financials_df \<Rightarrow>
               if financials_df = [] then Inl (KeyError ''index'')
               else
                 (let financials_df = deduplicate financials_df;
                      merged = map (canonical_row parse strftime)
                                 (merge_left constituents_df financials_df)
                  in Inr \<lparr>columns = canonical_columns,
                          rows = sort_key (\<lambda>r. (r_index r, r_code r)) merged\<rparr>)))"

subsection \<open>Vocabulary for the properties of the builder\<close>

text \<open>The index and code of a canonical row, of a constituent row and of a financial row.\<close>

definition row_key :: "row \<Rightarrow> string option \<times> string" where
  "row_key r = (r_index r, r_code r)"

definition constituent_key :: "constituent_row \<Rightarrow> string option \<times> string" where
  "constituent_key c = (Some (c_index c), c_code c)"

definition financial_key :: "financial_row \<Rightarrow> string option \<times> string" where
  "financial_key f = (f_index f, f_code f)"

text \<open>The financial row a constituent row is joined with: the first of its key, if any.\<close>

definition surviving_record :: "financial_row list \<Rightarrow> constituent_row \<Rightarrow> financial_row option" where
  "surviving_record financials_df c =
     (case filter (matches c) financials_df of [] \<Rightarrow> None | f # fs \<Rightarrow> Some f)"

text \<open>A cell that holds a text the number parser rejects.\<close>

definition unparseable :: "(string \<Rightarrow> real option) \<Rightarrow> cell \<Rightarrow> bool" where
  "unparseable parse c = (case c of Some (Text s) \<Rightarrow> parse s = None | _ \<Rightarrow> False)"

text \<open>
  Concrete inputs.  The day of a timestamp is printed as its number; the entries state a
  code and, where given, a date, a PBR and a weight.
\<close>

definition day_number :: "int \<Rightarrow> string" where
  "day_number t = str_int t"

definition constituent :: "string \<Rightarrow> scalar field \<Rightarrow> constituent_entry" where
  "constituent code w =
     \<lparr>ce_index = Absent, ce_code = Val (CodeStr code), ce_name = Absent, ce_sector = Absent,
      ce_weight = w\<rparr>"

definition financial :: "string \<Rightarrow> int field \<Rightarrow> scalar field \<Rightarrow> scalar field \<Rightarrow> financial_entry" where
  "financial code date pbr w =
     \<lparr>fe_index = Absent, fe_code = Val (CodeStr code), fe_date = date, fe_pbr = pbr,
      fe_roe = Absent, fe_dy = Absent, fe_market_cap = Absent, fe_weight = w\<rparr>"

definition canonical_1001 :: "cell \<Rightarrow> cell \<Rightarrow> row" where
  "canonical_1001 w p =
     \<lparr>r_index = Some ''yomiuri333'', r_code = ''1001'', r_name = Some '''',
      r_sector = Some ''Unknown'', r_weight = w, r_date = None, r_pbr = p, r_roe = None,
      r_dy = None, r_market_cap = None\<rparr>"

definition constituent_1001 :: constituent_row where
  "constituent_1001 =
     \<lparr>c_index = ''yomiuri333'', c_code = ''1001'', c_name = Some [],
      c_sector = Some ''Unknown'', c_weight = None\<rparr>"

definition unparseable_row :: financial_row where
  "unparseable_row =
     \<lparr>f_index = Some ''yomiuri333'', f_code = ''1001'', f_date = None,
      f_pbr = Some (Text ''n/a''), f_roe = None, f_dy = None, f_market_cap = None,
      f_weight = Some (Text ''n/a'')\<rparr>"

definition one_constituent :: "constituent_entry document" where
  "one_constituent = DocList [Mapping (constituent ''1001'' Absent)]"

definition two_same_constituents :: "constituent_entry document" where
  "two_same_constituents =
     DocList [Mapping (constituent ''1001'' Absent), Mapping (constituent ''1001'' Absent)]"

definition weighted_constituent :: "constituent_entry document" where
  "weighted_constituent = DocList [Mapping (constituent ''1001'' (Val (Number (1/2))))]"

definition one_financial :: "financial_entry document" where
  "one_financial = DocList [Mapping (financial ''1001'' Null (Val (Number (8/10))) Absent)]"

definition dated_then_undated :: "financial_entry document" where
  "dated_then_undated =
     DocList [Mapping (financial ''1001'' (Val 20231231) (Val (Number (8/10))) Absent),
              Mapping (financial ''1001'' Null (Val (Number (12/10))) Absent)]"

definition undated_then_dated :: "financial_entry document" where
  "undated_then_dated =
     DocList [Mapping (financial ''1001'' Null (Val (Number (12/10))) Absent),
              Mapping (financial ''1001'' (Val 20231231) (Val (Number (8/10))) Absent)]"

definition unparseable_financial :: "financial_entry document" where
  "unparseable_financial =
     DocList [Mapping (financial ''1001'' Null (Val (Text ''n/a'')) (Val (Text ''n/a'')))]"

chapter \<open>Properties\<close>

section \<open>The narrative summary\<close>

lemma bucket_count_append [simp]:
  "bucket_count f (xs @ [b]) = bucket_count f xs + (if family_of b = f then 1 else 0)"
  by (simp add: bucket_count_def)

lemma bucket_count_Nil [simp]: "bucket_count f [] = 0"
  by (simp add: bucket_count_def)

lemma counts_add_strength:
  "bucket_count f (strengths (add_strength b s)) =
     bucket_count f (strengths s) + (if family_of b = f then 1 else 0)"
  "weaknesses (add_strength b s) = weaknesses s"
  "cautions (add_strength b s) = cautions s"
  by (simp_all add: add_strength_def)

lemma counts_add_weakness:
  "bucket_count f (weaknesses (add_weakness b s)) =
     bucket_count f (weaknesses s) + (if family_of b = f then 1 else 0)"
  "strengths (add_weakness b s) = strengths s"
  "cautions (add_weakness b s) = cautions s"
  by (simp_all add: add_weakness_def)

lemma counts_add_caution:
  "bucket_count f (cautions (add_caution b s)) =
     bucket_count f (cautions s) + (if family_of b = f then 1 else 0)"
  "strengths (add_caution b s) = strengths s"
  "weaknesses (add_caution b s) = weaknesses s"
  by (simp_all add: add_caution_def)

lemmas counts_add = counts_add_strength counts_add_weakness counts_add_caution

lemma py_sub_numbers:
  "num_val y \<noteq> None \<Longrightarrow> num_val t \<noteq> None \<Longrightarrow> \<exists>d. py_sub y t = Inr d"
  by (auto simp: py_sub_def)

lemma py_sub_Inr: "py_sub y t = Inr d \<Longrightarrow> num_val y \<noteq> None \<and> num_val t \<noteq> None"
  by (auto simp: py_sub_def split: option.splits)

lemma py_gt_numbers:
  "num_val y \<noteq> None \<Longrightarrow> num_val t \<noteq> None \<Longrightarrow> \<exists>b. py_gt y t = Inr b"
  by (auto simp: py_gt_def)

lemma format_f_number: "num_val v \<noteq> None \<Longrightarrow> \<exists>r. format_f v = Inr r"
  by (auto simp: format_f_def)

lemma pbr_block_effect:
  assumes "pbr_block pbr s = Inr s'"
  shows "if safe_get pbr [''lt1'', ''yomiuri333''] = JNull \<or> safe_get pbr [''lt1'', ''topix''] = JNull
      then s' = add_caution PBR_missing s
      else (\<exists>d. s' = add_strength (PBR_higher d) s) \<or> (\<exists>d. s' = add_weakness (PBR_lower d) s)"
  using assms unfolding pbr_block_def Let_def
  by (auto split: if_splits sum.splits)

lemma roe_block_effect:
  assumes "roe_block roe s = Inr s'"
  shows "if safe_get roe [''median'', ''yomiuri333''] = JNull \<or> safe_get roe [''median'', ''topix''] = JNull
      then s' = add_caution ROE_missing s
      else (\<exists>y t. s' = add_strength (ROE_at_least y t) s) \<or> (\<exists>d. s' = add_weakness (ROE_lower d) s)"
  using assms unfolding roe_block_def Let_def
  by (auto split: if_splits sum.splits)

lemma dy_block_effect:
  assumes "dy_block dy s = Inr s'"
  shows "if safe_get dy [''mean'', ''yomiuri333''] = JNull \<or> safe_get dy [''mean'', ''topix''] = JNull
      then s' = add_caution DY_missing s
      else (\<exists>d. s' = add_strength (DY_above d) s) \<or> (\<exists>d. s' = add_weakness (DY_below d) s)"
  using assms unfolding dy_block_def Let_def
  by (auto split: if_splits sum.splits)

lemma hhi_block_effect:
  assumes "hhi_block hhi s = Inr s'"
  shows "if safe_get hhi [''hhi'', ''yomiuri333''] = JNull then s' = add_caution HHI_missing s
      else if safe_get hhi [''hhi'', ''topix''] = JNull
        then (\<exists>y. s' = add_strength (HHI_diversified y) s)
      else (\<exists>y. s' = add_strength (HHI_diversified y) s)
        \<or> (\<exists>y t. s' = add_weakness (HHI_higher t y) s)"
  using assms unfolding hhi_block_def hhi_strength_def hhi_weakness_def Let_def
  by (auto split: if_splits sum.splits)

lemma top10_block_effect:
  "top10_block hhi s =
     (if safe_get hhi [''top10_weight'', ''yomiuri333''] = JNull
      then add_caution Top10_missing s else s)"
  unfolding top10_block_def Let_def by simp

lemma pbr_block_total:
  "number_or_missing pbr ''lt1'' \<Longrightarrow> \<exists>s'. pbr_block pbr s = Inr s'"
  unfolding pbr_block_def Let_def number_or_missing_def
  by (auto simp: py_sub_def split: sum.splits)

lemma dy_block_total:
  "number_or_missing dy ''mean'' \<Longrightarrow> \<exists>s'. dy_block dy s = Inr s'"
  unfolding dy_block_def Let_def number_or_missing_def
  by (auto simp: py_sub_def split: sum.splits)

lemma roe_block_total:
  assumes "number_or_missing roe ''median''"
  shows "\<exists>s'. roe_block roe s = Inr s'"
proof (cases "missing_either roe ''median''")
  case True
  then show ?thesis
    unfolding roe_block_def Let_def missing_either_def by auto
next
  case False
  with assms have n: "num_val (safe_get roe [''median'', ''yomiuri333'']) \<noteq> None"
    "num_val (safe_get roe [''median'', ''topix'']) \<noteq> None"
    unfolding number_or_missing_def missing_either_def by auto
  from py_sub_numbers [OF n] obtain d
    where d: "py_sub (safe_get roe [''median'', ''yomiuri333'']) (safe_get roe [''median'', ''topix'']) = Inr d"
    by blast
  from format_f_number [OF n(1)] obtain y
    where y: "format_f (safe_get roe [''median'', ''yomiuri333'']) = Inr y" by blast
  from format_f_number [OF n(2)] obtain t
    where t: "format_f (safe_get roe [''median'', ''topix'']) = Inr t" by blast
  show ?thesis
    unfolding roe_block_def Let_def by (simp add: d y t)
qed

lemma hhi_block_total:
  assumes "number_or_missing hhi ''hhi''"
  shows "\<exists>s'. hhi_block hhi s = Inr s'"
proof (cases "safe_get hhi [''hhi'', ''yomiuri333''] = JNull")
  case True
  then show ?thesis
    unfolding hhi_block_def Let_def by simp
next
  case False
  with assms have ny: "num_val (safe_get hhi [''hhi'', ''yomiuri333'']) \<noteq> None"
    unfolding number_or_missing_def by auto
  from format_f_number [OF ny] obtain y
    where y: "format_f (safe_get hhi [''hhi'', ''yomiuri333'']) = Inr y" by blast
  show ?thesis
  proof (cases "safe_get hhi [''hhi'', ''topix''] = JNull")
    case True
    with False show ?thesis
      unfolding hhi_block_def hhi_strength_def Let_def by (simp add: y)
  next
    case nt: False
    with assms have nt': "num_val (safe_get hhi [''hhi'', ''topix'']) \<noteq> None"
      unfolding number_or_missing_def by auto
    from format_f_number [OF nt'] obtain t
      where t: "format_f (safe_get hhi [''hhi'', ''topix'']) = Inr t" by blast
    from py_gt_numbers [OF ny nt'] obtain b
      where b: "py_gt (safe_get hhi [''hhi'', ''yomiuri333'']) (safe_get hhi [''hhi'', ''topix'']) = Inr b"
      by blast
    from False nt show ?thesis
      unfolding hhi_block_def hhi_strength_def hhi_weakness_def Let_def by (simp add: y t b)
  qed
qed

lemma adds_one_intros:
  "family_of b = F \<Longrightarrow> adds_one F s (add_strength b s)"
  "family_of b = F \<Longrightarrow> adds_one F s (add_weakness b s)"
  "family_of b = F \<Longrightarrow> adds_one F s (add_caution b s)"
  unfolding adds_one_def by blast+

lemma adds_one_total:
  assumes "adds_one F s s'"
  shows "total_count f s' = total_count f s + (if f = F then 1 else 0)"
  using assms unfolding adds_one_def total_count_def
  by (auto simp: counts_add)

lemma adds_one_grows:
  assumes "adds_one F s s'"
  shows "bucket_count f (strengths s) \<le> bucket_count f (strengths s')"
    and "bucket_count f (weaknesses s) \<le> bucket_count f (weaknesses s')"
    and "bucket_count f (cautions s) \<le> bucket_count f (cautions s')"
  using assms unfolding adds_one_def
  by (auto simp: counts_add)

lemma pbr_block_adds_one: "pbr_block pbr s = Inr s' \<Longrightarrow> adds_one PBR s s'"
  by (drule pbr_block_effect) (auto split: if_splits intro: adds_one_intros)

lemma roe_block_adds_one: "roe_block roe s = Inr s' \<Longrightarrow> adds_one ROE s s'"
  by (drule roe_block_effect) (auto split: if_splits intro: adds_one_intros)

lemma dy_block_adds_one: "dy_block dy s = Inr s' \<Longrightarrow> adds_one DY s s'"
  by (drule dy_block_effect) (auto split: if_splits intro: adds_one_intros)

lemma hhi_block_adds_one: "hhi_block hhi s = Inr s' \<Longrightarrow> adds_one HHI s s'"
  by (drule hhi_block_effect) (auto split: if_splits intro: adds_one_intros)

lemma top10_block_counts:
  "total_count f (top10_block hhi s) =
     total_count f s
     + (if f = Top10 \<and> safe_get hhi [''top10_weight'', ''yomiuri333''] = JNull then 1 else 0)"
  "bucket_count f (strengths s) = bucket_count f (strengths (top10_block hhi s))"
  "bucket_count f (weaknesses s) = bucket_count f (weaknesses (top10_block hhi s))"
  "bucket_count f (cautions s) \<le> bucket_count f (cautions (top10_block hhi s))"
  by (auto simp: top10_block_effect total_count_def counts_add)

lemma total_count_empty [simp]: "total_count f empty_summary = 0"
  by (simp add: total_count_def empty_summary_def)

lemma bucket_le_total:
  "bucket_count f (strengths s) \<le> total_count f s"
  "bucket_count f (weaknesses s) \<le> total_count f s"
  "bucket_count f (cautions s) \<le> total_count f s"
  by (simp_all add: total_count_def)

lemma derive_logic_summary_steps:
  assumes "derive_logic_summary pbr roe dy hhi = Inr s"
  obtains s1 s2 s3 s4 where
    "pbr_block pbr empty_summary = Inr s1" "roe_block roe s1 = Inr s2"
    "dy_block dy s2 = Inr s3" "hhi_block hhi s3 = Inr s4" "s = top10_block hhi s4"
  using assms unfolding derive_logic_summary_def
  by (auto split: sum.splits)

lemma derive_logic_summary_total:
  assumes "number_or_missing pbr ''lt1''" "number_or_missing roe ''median''"
    "number_or_missing dy ''mean''" "number_or_missing hhi ''hhi''"
  shows "\<exists>s. derive_logic_summary pbr roe dy hhi = Inr s"
proof -
  obtain s1 where 1: "pbr_block pbr empty_summary = Inr s1"
    using pbr_block_total [OF assms(1)] by blast
  obtain s2 where 2: "roe_block roe s1 = Inr s2"
    using roe_block_total [OF assms(2)] by blast
  obtain s3 where 3: "dy_block dy s2 = Inr s3"
    using dy_block_total [OF assms(3)] by blast
  obtain s4 where 4: "hhi_block hhi s3 = Inr s4"
    using hhi_block_total [OF assms(4)] by blast
  show ?thesis
    unfolding derive_logic_summary_def by (simp add: 1 2 3 4)
qed

lemma derive_logic_summary_buckets:
  assumes "derive_logic_summary pbr roe dy hhi = Inr s"
  shows "total_count PBR s = 1" "total_count ROE s = 1" "total_count DY s = 1" "total_count HHI s = 1"
    and "missing_either pbr ''lt1'' \<Longrightarrow> bucket_count PBR (cautions s) = 1"
    and "missing_either roe ''median'' \<Longrightarrow> bucket_count ROE (cautions s) = 1"
    and "missing_either dy ''mean'' \<Longrightarrow> bucket_count DY (cautions s) = 1"
    and "safe_get hhi [''hhi'', ''yomiuri333''] = JNull \<Longrightarrow> bucket_count HHI (cautions s) = 1"
    and "safe_get hhi [''hhi'', ''yomiuri333''] \<noteq> JNull \<Longrightarrow> safe_get hhi [''hhi'', ''topix''] = JNull
           \<Longrightarrow> bucket_count HHI (strengths s) = 1"
    and "total_count Top10 s = bucket_count Top10 (cautions s)"
    and "bucket_count Top10 (cautions s) =
           (if safe_get hhi [''top10_weight'', ''yomiuri333''] = JNull then 1 else 0)"
proof -
  from assms obtain s1 s2 s3 s4 where
    p: "pbr_block pbr empty_summary = Inr s1" and r: "roe_block roe s1 = Inr s2" and
    d: "dy_block dy s2 = Inr s3" and h: "hhi_block hhi s3 = Inr s4" and t: "s = top10_block hhi s4"
    by (rule derive_logic_summary_steps)
  note a1 = pbr_block_adds_one [OF p] and a2 = roe_block_adds_one [OF r]
    and a3 = dy_block_adds_one [OF d] and a4 = hhi_block_adds_one [OF h]
  have tot: "total_count f s =
      (if f = PBR \<or> f = ROE \<or> f = DY \<or> f = HHI then 1 else 0)
      + (if f = Top10 \<and> safe_get hhi [''top10_weight'', ''yomiuri333''] = JNull then 1 else 0)" for f
    unfolding t top10_block_counts(1)
      adds_one_total [OF a4] adds_one_total [OF a3] adds_one_total [OF a2] adds_one_total [OF a1]
    by (cases f) simp_all
  show P: "total_count PBR s = 1" and R: "total_count ROE s = 1"
    and D: "total_count DY s = 1" and H: "total_count HHI s = 1"
    by (simp_all add: tot)
  have caut: "bucket_count f (cautions s') \<le> bucket_count f (cautions s)"
    if "s' = s1 \<or> s' = s2 \<or> s' = s3 \<or> s' = s4" for f s'
  proof -
    have "bucket_count f (cautions s1) \<le> bucket_count f (cautions s2)"
      "bucket_count f (cautions s2) \<le> bucket_count f (cautions s3)"
      "bucket_count f (cautions s3) \<le> bucket_count f (cautions s4)"
      "bucket_count f (cautions s4) \<le> bucket_count f (cautions s)"
      using adds_one_grows(3) [OF a2] adds_one_grows(3) [OF a3] adds_one_grows(3) [OF a4]
        top10_block_counts(4) [of f s4 hhi] t by simp_all
    with that show ?thesis by auto
  qed
  have str: "bucket_count f (strengths s4) = bucket_count f (strengths s)" for f
    using top10_block_counts(2) [of f s4 hhi] t by simp
  have wk: "bucket_count f (weaknesses s4) = bucket_count f (weaknesses s)" for f
    using top10_block_counts(3) [of f s4 hhi] t by simp
  show "bucket_count PBR (cautions s) = 1" if "missing_either pbr ''lt1''"
  proof -
    have "s1 = add_caution PBR_missing empty_summary"
      using pbr_block_effect [OF p] that by (simp add: missing_either_def)
    then have "1 \<le> bucket_count PBR (cautions s1)" by (simp add: counts_add)
    with caut [of s1 PBR] bucket_le_total(3) [of PBR s] P show ?thesis by simp
  qed
  show "bucket_count ROE (cautions s) = 1" if "missing_either roe ''median''"
  proof -
    have "s2 = add_caution ROE_missing s1"
      using roe_block_effect [OF r] that by (simp add: missing_either_def)
    then have "1 \<le> bucket_count ROE (cautions s2)" by (simp add: counts_add)
    with caut [of s2 ROE] bucket_le_total(3) [of ROE s] R show ?thesis by simp
  qed
  show "bucket_count DY (cautions s) = 1" if "missing_either dy ''mean''"
  proof -
    have "s3 = add_caution DY_missing s2"
      using dy_block_effect [OF d] that by (simp add: missing_either_def)
    then have "1 \<le> bucket_count DY (cautions s3)" by (simp add: counts_add)
    with caut [of s3 DY] bucket_le_total(3) [of DY s] D show ?thesis by simp
  qed
  show "bucket_count HHI (cautions s) = 1" if "safe_get hhi [''hhi'', ''yomiuri333''] = JNull"
  proof -
    have "s4 = add_caution HHI_missing s3"
      using hhi_block_effect [OF h] that by simp
    then have "1 \<le> bucket_count HHI (cautions s4)" by (simp add: counts_add)
    with caut [of s4 HHI] bucket_le_total(3) [of HHI s] H show ?thesis by simp
  qed
  show "bucket_count HHI (strengths s) = 1"
    if yp: "safe_get hhi [''hhi'', ''yomiuri333''] \<noteq> JNull" and tm: "safe_get hhi [''hhi'', ''topix''] = JNull"
  proof -
    have "\<exists>y. s4 = add_strength (HHI_diversified y) s3"
      using hhi_block_effect [OF h] yp tm by simp
    then obtain y where "s4 = add_strength (HHI_diversified y) s3" ..
    then have "1 \<le> bucket_count HHI (strengths s4)" by (simp add: counts_add)
    with str [of HHI] bucket_le_total(1) [of HHI s] H show ?thesis by simp
  qed
  have s0: "bucket_count Top10 (strengths s) = 0"
  proof -
    have "total_count Top10 s4 = 0"
      unfolding adds_one_total [OF a4] adds_one_total [OF a3] adds_one_total [OF a2]
        adds_one_total [OF a1] by simp
    with bucket_le_total(1) [of Top10 s4] str [of Top10] show ?thesis by simp
  qed
  have w0: "bucket_count Top10 (weaknesses s) = 0"
  proof -
    have "total_count Top10 s4 = 0"
      unfolding adds_one_total [OF a4] adds_one_total [OF a3] adds_one_total [OF a2]
        adds_one_total [OF a1] by simp
    with bucket_le_total(2) [of Top10 s4] wk [of Top10] show ?thesis by simp
  qed
  show T: "total_count Top10 s = bucket_count Top10 (cautions s)"
    using s0 w0 by (simp add: total_count_def)
  show "bucket_count Top10 (cautions s) =
           (if safe_get hhi [''top10_weight'', ''yomiuri333''] = JNull then 1 else 0)"
    using T tot [of Top10] by simp
qed

text \<open>
  The three families decided by \<open>\<ge>\<close> (and the HHI, decided by \<open>>\<close> on the weakness
  side) put a tie among the strengths.
\<close>

lemma roe_tie_is_strength:
  assumes "safe_get roe [''median'', ''yomiuri333''] = JNum v"
    and "safe_get roe [''median'', ''topix''] = JNum v"
  shows "roe_block roe s = Inr (add_strength (ROE_at_least v v) s)"
  unfolding roe_block_def Let_def by (simp add: assms py_sub_def format_f_def)

lemma dy_tie_is_strength:
  assumes "safe_get dy [''mean'', ''yomiuri333''] = JNum v"
    and "safe_get dy [''mean'', ''topix''] = JNum v"
  shows "dy_block dy s = Inr (add_strength (DY_above 0) s)"
  unfolding dy_block_def Let_def by (simp add: assms py_sub_def)

lemma hhi_tie_is_strength:
  assumes "safe_get hhi [''hhi'', ''yomiuri333''] = JNum v"
    and "safe_get hhi [''hhi'', ''topix''] = JNum v"
  shows "hhi_block hhi s = Inr (add_strength (HHI_diversified v) s)"
  unfolding hhi_block_def hhi_strength_def Let_def by (simp add: assms py_gt_def format_f_def)

text \<open>
  Claim C2 (ties favour the strengths bucket in every metric family).  At a PBR tie
  (both indices have the same share of constituents below 1) the code compares with
  \<open>diff > 0\<close>, so the PBR bullet is the weakness sentence: the strengths bucket stays
  empty.  The other families are handled by the three lemmas above.
\<close>

theorem pbr_tie_is_weakness:
  "derive_logic_summary tie_pbr no_metrics no_metrics no_metrics =
     Inr \<lparr>strengths = [], weaknesses = [PBR_lower 0],
          cautions = [ROE_missing, DY_missing, HHI_missing, Top10_missing]\<rparr>"
  by (simp add: derive_logic_summary_def pbr_block_def roe_block_def dy_block_def hhi_block_def
      top10_block_def tie_pbr_def no_metrics_def safe_get.simps empty_summary_def py_sub_def
      add_strength_def add_weakness_def add_caution_def)

text \<open>
  Claim C3, as stated, sends a family to the cautions whenever either side is missing.
  For the HHI this fails: with the primary value present and the benchmark absent the
  bullet is the diversification sentence, among the strengths.
\<close>

theorem hhi_without_benchmark_is_strength:
  "safe_get primary_only_hhi [''hhi'', ''topix''] = JNull \<and>
   derive_logic_summary no_metrics no_metrics no_metrics primary_only_hhi =
     Inr \<lparr>strengths = [HHI_diversified (1/2)], weaknesses = [],
          cautions = [PBR_missing, ROE_missing, DY_missing, Top10_missing]\<rparr>"
  by (simp add: derive_logic_summary_def pbr_block_def roe_block_def dy_block_def hhi_block_def
      hhi_strength_def format_f_def
      top10_block_def primary_only_hhi_def no_metrics_def safe_get.simps empty_summary_def
      add_strength_def add_weakness_def add_caution_def)

text \<open>
  Claim C3, amended.  On metrics documents whose consulted entries are numbers or
  missing, \<open>derive_logic_summary\<close> returns, and in its result every one of the four
  families PBR, ROE, yield and HHI has exactly one bullet over the three buckets.  The
  PBR, ROE and yield bullet is among the cautions whenever either side is missing; the
  HHI bullet is among the cautions when the primary value is missing and among the
  strengths when only the benchmark is missing.  The top-10 caution is the only bullet
  of its family and is present exactly when the primary top-10 weight is missing.
\<close>

theorem derive_logic_summary_one_bullet_per_family:
  assumes "number_or_missing pbr ''lt1''" "number_or_missing roe ''median''"
    "number_or_missing dy ''mean''" "number_or_missing hhi ''hhi''"
  shows "\<exists>s. derive_logic_summary pbr roe dy hhi = Inr s
     \<and> total_count PBR s = 1 \<and> total_count ROE s = 1
     \<and> total_count DY s = 1 \<and> total_count HHI s = 1
     \<and> (missing_either pbr ''lt1'' \<longrightarrow> bucket_count PBR (cautions s) = 1)
     \<and> (missing_either roe ''median'' \<longrightarrow> bucket_count ROE (cautions s) = 1)
     \<and> (missing_either dy ''mean'' \<longrightarrow> bucket_count DY (cautions s) = 1)
     \<and> (safe_get hhi [''hhi'', ''yomiuri333''] = JNull \<longrightarrow> bucket_count HHI (cautions s) = 1)
     \<and> (safe_get hhi [''hhi'', ''yomiuri333''] \<noteq> JNull \<and> safe_get hhi [''hhi'', ''topix''] = JNull
           \<longrightarrow> bucket_count HHI (strengths s) = 1)
     \<and> total_count Top10 s = bucket_count Top10 (cautions s)
     \<and> bucket_count Top10 (cautions s) =
           (if safe_get hhi [''top10_weight'', ''yomiuri333''] = JNull then 1 else 0)"
proof -
  obtain s where s: "derive_logic_summary pbr roe dy hhi = Inr s"
    using derive_logic_summary_total [OF assms] by blast
  show ?thesis
    using derive_logic_summary_buckets [OF s] s by blast
qed

theorem derive_logic_summary_one_bullet_per_family_witness:
  "number_or_missing no_metrics ''lt1'' \<and> number_or_missing no_metrics ''median''
   \<and> number_or_missing tie_pbr ''mean'' \<and> number_or_missing primary_only_hhi ''hhi''
   \<and> missing_either no_metrics ''lt1''
   \<and> safe_get primary_only_hhi [''hhi'', ''yomiuri333''] \<noteq> JNull
   \<and> safe_get primary_only_hhi [''hhi'', ''topix''] = JNull
   \<and> (\<exists>s. derive_logic_summary no_metrics no_metrics tie_pbr primary_only_hhi = Inr s
        \<and> total_count PBR s = 1 \<and> total_count HHI s = 1
        \<and> bucket_count PBR (cautions s) = 1 \<and> bucket_count HHI (strengths s) = 1
        \<and> bucket_count Top10 (cautions s) = 1)"
proof -
  have h: "number_or_missing no_metrics ''lt1''" "number_or_missing no_metrics ''median''"
    "number_or_missing tie_pbr ''mean''" "number_or_missing primary_only_hhi ''hhi''"
    by (simp_all add: number_or_missing_def no_metrics_def tie_pbr_def primary_only_hhi_def
        safe_get.simps)
  have m: "missing_either no_metrics ''lt1''"
    "safe_get primary_only_hhi [''hhi'', ''yomiuri333''] \<noteq> JNull"
    "safe_get primary_only_hhi [''hhi'', ''topix''] = JNull"
    "safe_get primary_only_hhi [''top10_weight'', ''yomiuri333''] = JNull"
    by (simp_all add: missing_either_def no_metrics_def primary_only_hhi_def safe_get.simps)
  show ?thesis
    using derive_logic_summary_one_bullet_per_family [OF h] h m by auto
qed

section \<open>The statistics modules\<close>

lemma to_numeric_numeric_cell:
  "numeric_cell c \<Longrightarrow> to_numeric parse c \<noteq> None \<longleftrightarrow> c \<noteq> None"
  by (cases "(parse, c)" rule: to_numeric.cases) (auto simp: numeric_cell_def)

lemma length_dropna:
  "length (dropna parse col rs) = length (filter (\<lambda>r. to_numeric parse (col r) \<noteq> None) rs)"
  by (simp add: dropna_def List.map_filter_def)

lemma set_group_keys: "set (group_keys rs) = {k. \<exists>r \<in> set rs. r_index r = Some k}"
  by (auto simp: group_keys_def List.map_filter_def image_iff) force

lemma distinct_group_keys: "distinct (group_keys rs)"
  by (simp add: group_keys_def)

lemma pbr_fold_count:
  "pbr_count (foldl (pbr_group parse) m gs) =
     pbr_count m @ map (\<lambda>g. (fst g, length (dropna parse r_pbr (snd g)))) gs"
  by (induction gs arbitrary: m) (simp_all add: pbr_group_def Let_def)

lemma roe_fold_count:
  "roe_count (foldl (roe_group parse) m gs) =
     roe_count m @ map (\<lambda>g. (fst g, length (dropna parse r_roe (snd g)))) gs"
  by (induction gs arbitrary: m) (simp_all add: roe_group_def Let_def)

lemma map_of_keyed:
  "map_of (map (\<lambda>k. (k, f k)) ks) k = (if k \<in> set ks then Some (f k) else None)"
  by (induction ks) auto

lemma pbr_count_lookup:
  assumes "compute_pbr_stats parse t = Inr m"
  shows "map_of (pbr_count m) k =
     (if k \<in> set (group_keys (rows t))
      then Some (length (filter (\<lambda>r. to_numeric parse (r_pbr r) \<noteq> None) (group_rows k (rows t))))
      else None)"
proof -
  from assms have m: "m = foldl (pbr_group parse)
      \<lparr>pbr_lt1 = [], pbr_mean = [], pbr_median = [], pbr_count = []\<rparr> (groupby_index (rows t))"
    by (auto simp: compute_pbr_stats_def split: if_splits)
  have "pbr_count m = map (\<lambda>k. (k, length (dropna parse r_pbr (group_rows k (rows t)))))
      (group_keys (rows t))"
    unfolding m pbr_fold_count by (simp add: groupby_index_def comp_def)
  then show ?thesis
    by (simp add: map_of_keyed length_dropna)
qed

lemma roe_count_lookup:
  assumes "compute_roe_stats parse t = Inr m"
  shows "map_of (roe_count m) k =
     (if k \<in> set (group_keys (rows t))
      then Some (length (filter (\<lambda>r. to_numeric parse (r_roe r) \<noteq> None) (group_rows k (rows t))))
      else None)"
proof -
  from assms have m: "m = foldl (roe_group parse)
      \<lparr>roe_median = [], roe_quantiles = map (\<lambda>(label, q). (label, [])) QUANTILES,
       roe_count = []\<rparr> (groupby_index (rows t))"
    by (auto simp: compute_roe_stats_def split: if_splits)
  have "roe_count m = map (\<lambda>k. (k, length (dropna parse r_roe (group_rows k (rows t)))))
      (group_keys (rows t))"
    unfolding m roe_fold_count by (simp add: groupby_index_def comp_def)
  then show ?thesis
    by (simp add: map_of_keyed length_dropna)
qed

lemma resolve_weights_Inr:
  "''weight'' \<in> set cols \<Longrightarrow> \<exists>ws. resolve_weights parse cols rs = Inr ws \<and> length ws = length rs"
  by (auto simp: resolve_weights_def Let_def fillna_def)

lemma resolve_weights_Inl:
  "resolve_weights parse cols rs = Inl e \<Longrightarrow> e = AttributeError"
  by (auto simp: resolve_weights_def Let_def split: if_splits)

lemma hhi_groups_Inl:
  "hhi_groups parse cols m gs = Inl e \<Longrightarrow> e = AttributeError"
  by (induction parse cols m gs rule: hhi_groups.induct)
    (auto split: sum.splits dest: resolve_weights_Inl)

lemma hhi_groups_weight:
  assumes "''weight'' \<in> set cols"
  shows "\<exists>m'. hhi_groups parse cols m gs = Inr m'
     \<and> hhi_constituents m' = hhi_constituents m @ map (\<lambda>g. (fst g, length (snd g))) gs
     \<and> hhi_hhi m' = hhi_hhi m @
         map (\<lambda>g. (fst g, hhi_value (snd g) (projr (resolve_weights parse cols (snd g))))) gs"
proof (induction gs arbitrary: m)
  case Nil
  then show ?case by simp
next
  case (Cons g gs)
  obtain k rs where g: "g = (k, rs)" by (cases g)
  obtain ws where ws: "resolve_weights parse cols rs = Inr ws"
    using resolve_weights_Inr [OF assms] by blast
  show ?case
    using Cons.IH [of "m\<lparr>hhi_hhi := hhi_hhi m @ [(k, hhi_value rs ws)],
                     hhi_top10_weight := hhi_top10_weight m @ [(k, top10_value ws)],
                     hhi_constituents := hhi_constituents m @ [(k, length rs)]\<rparr>"]
    by (auto simp: g ws)
qed

lemma add_to_group_keys:
  "map fst (add_to_group k w acc) = (if k \<in> fst ` set acc then map fst acc else map fst acc @ [k])"
  by (induction acc) (auto split: if_splits)

lemma add_to_group_lookup:
  "map_of (add_to_group k w acc) s =
     (if s = k then Some ((case map_of acc k of None \<Rightarrow> 0 | Some v \<Rightarrow> v) + w) else map_of acc s)"
  by (induction acc) auto

lemma add_to_group_distinct:
  "distinct (map fst acc) \<Longrightarrow> distinct (map fst (add_to_group k w acc))"
  by (simp add: add_to_group_keys)

lemma sector_total_Cons:
  "sector_total s ((k, w) # kvs) = (if k = s then w else 0) + sector_total s kvs"
  by (simp add: sector_total_def)

lemma fold_add_to_group:
  assumes "distinct (map fst acc)"
  shows "distinct (map fst (foldl (\<lambda>acc (k, w). add_to_group k w acc) acc kvs))
    \<and> set (map fst (foldl (\<lambda>acc (k, w). add_to_group k w acc) acc kvs))
        = fst ` set acc \<union> fst ` set kvs
    \<and> (\<forall>s. map_of (foldl (\<lambda>acc (k, w). add_to_group k w acc) acc kvs) s =
          (if s \<in> fst ` set acc \<union> fst ` set kvs
           then Some ((case map_of acc s of None \<Rightarrow> 0 | Some v \<Rightarrow> v) + sector_total s kvs)
           else None))"
  using assms
proof (induction kvs arbitrary: acc)
  case Nil
  then show ?case
    by (auto simp: sector_total_def map_of_eq_None_iff split: option.splits)
next
  case (Cons kv kvs)
  obtain k w where kv: "kv = (k, w)" by (cases kv)
  have d: "distinct (map fst (add_to_group k w acc))"
    using Cons.prems by (rule add_to_group_distinct)
  have keys: "fst ` set (add_to_group k w acc) = insert k (fst ` set acc)"
    using arg_cong [OF add_to_group_keys [of k w acc], of set] by (auto split: if_splits)
  note IH = Cons.IH [OF d]
  show ?case
    unfolding kv foldl_Cons prod.case
    using IH
    by (auto simp: keys add_to_group_lookup sector_total_Cons map_of_eq_None_iff
        split: option.splits)
qed

lemma groupby_sum_props:
  "distinct (map fst (groupby_sum keys ws))"
  "set (map fst (groupby_sum keys ws)) = fst ` set (zip keys ws)"
  "map_of (groupby_sum keys ws) s =
     (if s \<in> fst ` set (zip keys ws) then Some (sector_total s (zip keys ws)) else None)"
  using fold_add_to_group [of "[]" "zip keys ws"]
  by (auto simp: groupby_sum_def)

lemma sum_list_distinct_keys:
  "distinct (map fst xs) \<Longrightarrow>
     sum_list (map (\<lambda>(s, w). f w) xs) = (\<Sum>s \<leftarrow> map fst xs. f (the (map_of xs s)))"
proof (induction xs)
  case Nil
  then show ?case by simp
next
  case (Cons x xs)
  obtain k v where x: "x = (k, v)" by (cases x)
  from Cons.prems have k: "k \<notin> fst ` set xs" and d: "distinct (map fst xs)"
    by (auto simp: x)
  have "(\<Sum>s \<leftarrow> map fst xs. f (the (map_of (x # xs) s))) = (\<Sum>s \<leftarrow> map fst xs. f (the (map_of xs s)))"
    using k by (intro arg_cong [where f = sum_list] map_cong) (auto simp: x)
  with Cons.IH [OF d] show ?case
    by (simp add: x)
qed

lemma hhi_value_by_sector:
  assumes "length weights = length subset_rows"
  shows "hhi_value subset_rows weights = hhi_by_sector subset_rows weights"
proof -
  let ?keys = "sector_series subset_rows"
  let ?g = "groupby_sum ?keys weights"
  have len: "length weights = length ?keys"
    using assms by (simp add: sector_series_def)
  have fst_zip: "fst ` set (zip ?keys weights) = set ?keys"
    using len by (metis map_fst_zip set_map)
  have "hhi_value subset_rows weights = (\<Sum>s \<leftarrow> map fst ?g. (the (map_of ?g s)) ^ 2)"
    unfolding hhi_value_def Let_def
    by (rule sum_list_distinct_keys) (rule groupby_sum_props)
  also have "\<dots> = (\<Sum>s \<in> set (map fst ?g). (the (map_of ?g s)) ^ 2)"
    by (rule sum_list_distinct_conv_sum_set) (rule groupby_sum_props)
  also have "\<dots> = (\<Sum>s \<in> set ?keys. (sector_total s (zip ?keys weights)) ^ 2)"
  proof (rule sum.cong)
    show "set (map fst ?g) = set ?keys"
      using groupby_sum_props(2) [of ?keys weights] fst_zip by simp
  next
    fix s assume "s \<in> set ?keys"
    then show "(the (map_of ?g s)) ^ 2 = (sector_total s (zip ?keys weights)) ^ 2"
      by (simp add: groupby_sum_props(3) fst_zip)
  qed
  also have "\<dots> = hhi_by_sector subset_rows weights"
    unfolding hhi_by_sector_def
    by (simp add: sum_list_distinct_conv_sum_set)
  finally show ?thesis .
qed

lemma sum_list_divide:
  fixes ws :: "real list"
  shows "sum_list (map (\<lambda>w. w / c) ws) = sum_list ws / c"
  by (induction ws) (simp_all add: add_divide_distrib)

lemma sum_list_map_divide:
  fixes f :: "'a \<Rightarrow> real"
  shows "sum_list (map (\<lambda>r. f r / c) rs) = sum_list (map f rs) / c"
  by (induction rs) (simp_all add: add_divide_distrib)

lemma sum_list_ones: "sum_list (map (\<lambda>r. 1::real) rs) = real (length rs)"
  by (induction rs) simp_all

lemma sum_list_equal_shares:
  "rs \<noteq> [] \<Longrightarrow> sum_list (map (\<lambda>r. 1 / real (length rs)) rs) = 1"
  by (simp add: sum_list_triv)

lemma fillna_stated_or_zero:
  "fillna 0 (map (\<lambda>r. to_numeric parse (r_weight r)) rs) = map (stated_or_zero parse) rs"
  by (induction rs) (auto simp: fillna_def stated_or_zero_def)

lemma list_ex_stated:
  "list_ex (\<lambda>w. w \<noteq> None) (map (\<lambda>r. to_numeric parse (r_weight r)) rs)
     = list_ex (\<lambda>r. to_numeric parse (r_weight r) \<noteq> None) rs"
  by (induction rs) simp_all

lemma resolve_weights_eq_spec:
  assumes "''weight'' \<in> set cols"
  shows "resolve_weights parse cols rs = Inr (resolve_weights_spec parse rs)"
proof -
  have shares: "map (\<lambda>w. w / real (length rs)) (map (\<lambda>r. 1::real) rs)
      = map (\<lambda>r. 1 / real (length rs)) rs"
    by simp
  show ?thesis
    using assms
    unfolding resolve_weights_def resolve_weights_spec_def Let_def fillna_stated_or_zero
      list_ex_stated
    by (auto simp: sum_list_ones not_less comp_def)
qed

lemma resolve_weights_spec_sum:
  assumes "rs \<noteq> []"
  shows "sum_list (resolve_weights_spec parse rs) = 1"
  using assms sum_list_equal_shares [OF assms]
  by (auto simp: resolve_weights_spec_def Let_def sum_list_map_divide)

lemma sector_total_rows:
  "sector_total s (zip (map f rs) ws) = (\<Sum>(r, w) \<leftarrow> zip rs ws. if f r = s then w else 0)"
proof (induction rs arbitrary: ws)
  case Nil
  then show ?case by (simp add: sector_total_def)
next
  case (Cons r rs)
  then show ?case by (cases ws) (simp_all add: sector_total_def)
qed

lemma hhi_by_sector_eq: "hhi_by_sector rs ws = hhi_spec rs ws"
proof -
  have s: "sector_series rs = map sector_or_unknown rs"
    by (simp add: sector_series_def sector_or_unknown_def)
  show ?thesis
    unfolding hhi_by_sector_def hhi_spec_def s sector_total_rows ..
qed

lemma compute_hhi_lookup:
  assumes "''index'' \<in> set (columns t)" "''sector'' \<in> set (columns t)"
    "''weight'' \<in> set (columns t)"
  shows "\<exists>m. compute_concentration_metrics parse t = Inr m
     \<and> (\<forall>k \<in> set (group_keys (rows t)).
          map_of (hhi_constituents m) k = Some (length (group_rows k (rows t)))
        \<and> map_of (hhi_hhi m) k =
            Some (hhi_value (group_rows k (rows t))
                   (projr (resolve_weights parse (columns t) (group_rows k (rows t))))))"
proof -
  from hhi_groups_weight [OF assms(3), of parse
      "\<lparr>hhi_hhi = [], hhi_top10_weight = [], hhi_constituents = []\<rparr>" "groupby_index (rows t)"]
  obtain m where m: "hhi_groups parse (columns t)
        \<lparr>hhi_hhi = [], hhi_top10_weight = [], hhi_constituents = []\<rparr> (groupby_index (rows t)) = Inr m"
    and c: "hhi_constituents m = map (\<lambda>g. (fst g, length (snd g))) (groupby_index (rows t))"
    and h: "hhi_hhi m = map (\<lambda>g. (fst g, hhi_value (snd g)
              (projr (resolve_weights parse (columns t) (snd g))))) (groupby_index (rows t))"
    by auto
  have c': "hhi_constituents m = map (\<lambda>k. (k, length (group_rows k (rows t)))) (group_keys (rows t))"
    unfolding c by (simp add: groupby_index_def comp_def)
  have h': "hhi_hhi m = map (\<lambda>k. (k, hhi_value (group_rows k (rows t))
              (projr (resolve_weights parse (columns t) (group_rows k (rows t))))))
              (group_keys (rows t))"
    unfolding h by (simp add: groupby_index_def comp_def)
  show ?thesis
    using assms m by (simp add: compute_concentration_metrics_def c' h' map_of_keyed)
qed

text \<open>
  Claim C6.  For every index group of a table with the index, sector and weight columns,
  \<^verbatim>\<open>compute_concentration_metrics\<close> returns, and the HHI it reports for the group is the sum
  over the sectors of the squared per-sector sums of the resolved normalized weights, rows
  with a missing sector counted under \<open>Unknown\<close>.
\<close>

theorem hhi_is_sum_of_squared_sector_weights:
  assumes "''index'' \<in> set (columns t)" "''sector'' \<in> set (columns t)"
    "''weight'' \<in> set (columns t)" "k \<in> set (group_keys (rows t))"
  shows "\<exists>m ws. compute_concentration_metrics parse t = Inr m
     \<and> resolve_weights parse (columns t) (group_rows k (rows t)) = Inr ws
     \<and> map_of (hhi_hhi m) k = Some (hhi_spec (group_rows k (rows t)) ws)"
proof -
  obtain ws where ws: "resolve_weights parse (columns t) (group_rows k (rows t)) = Inr ws"
    and len: "length ws = length (group_rows k (rows t))"
    using resolve_weights_Inr [OF assms(3)] by blast
  from compute_hhi_lookup [OF assms(1-3), of parse] assms(4) obtain m
    where "compute_concentration_metrics parse t = Inr m"
      and "map_of (hhi_hhi m) k = Some (hhi_value (group_rows k (rows t)) ws)"
    by (auto simp: ws)
  then show ?thesis
    using ws by (simp add: hhi_value_by_sector [OF len] hhi_by_sector_eq)
qed

lemma test_keys: "''yomiuri333'' \<in> set (group_keys (rows test_table))"
  by (simp add: set_group_keys test_table_def test_row_def)

lemma test_group:
  "group_rows ''yomiuri333'' (rows test_table) =
     [test_row ''yomiuri333'' ''1001'' ''Alpha'' ''Materials'' (1/2) (8/10) 5 (26/10),
      test_row ''yomiuri333'' ''2002'' ''Beta'' ''Industrials'' (1/2) (12/10) (36/10) (21/10)]"
  by (simp add: group_rows_def test_table_def test_row_def)

lemma test_weights:
  "resolve_weights no_parse canonical_columns (group_rows ''yomiuri333'' (rows test_table)) = Inr [1/2, 1/2]"
  unfolding test_group
  by (simp add: resolve_weights_def canonical_columns_def test_row_def Let_def fillna_def)

theorem hhi_is_sum_of_squared_sector_weights_witness:
  "''yomiuri333'' \<in> set (group_keys (rows test_table)) \<and>
   (\<exists>m. compute_concentration_metrics no_parse test_table = Inr m
      \<and> map_of (hhi_hhi m) ''yomiuri333'' = Some (1/2))"
proof -
  have cols: "''index'' \<in> set (columns test_table)" "''sector'' \<in> set (columns test_table)"
    "''weight'' \<in> set (columns test_table)"
    by (simp_all add: test_table_def canonical_columns_def)
  have w: "resolve_weights no_parse (columns test_table)
      (group_rows ''yomiuri333'' (rows test_table)) = Inr [1/2, 1/2]"
    using test_weights by (simp add: test_table_def)
  have v: "hhi_spec (group_rows ''yomiuri333'' (rows test_table)) [1/2, 1/2] = 1/2"
    unfolding test_group
    by (simp add: hhi_spec_def sector_or_unknown_def test_row_def power2_eq_square)
  from hhi_is_sum_of_squared_sector_weights [OF cols test_keys, of no_parse] show ?thesis
    using test_keys by (auto simp: w v)
qed

text \<open>
  With a weight column the resolved weights of a non-empty group sum to 1, and they are
  the weights the specification describes: the stated weights, missing ones counted as
  0, over their total when a weight is stated and the total is positive, and equal
  weights otherwise.
\<close>

lemma resolve_weights_with_weight_column:
  assumes "''weight'' \<in> set cols" "subset_rows \<noteq> []"
  shows "\<exists>ws. resolve_weights parse cols subset_rows = Inr ws \<and> sum_list ws = 1
     \<and> ws = resolve_weights_spec parse subset_rows"
  using resolve_weights_eq_spec [OF assms(1)] resolve_weights_spec_sum [OF assms(2)] by simp

lemma resolve_weights_test_group:
  "''weight'' \<in> set canonical_columns \<and> group_rows ''yomiuri333'' (rows test_table) \<noteq> []
   \<and> resolve_weights no_parse canonical_columns (group_rows ''yomiuri333'' (rows test_table))
       = Inr [1/2, 1/2]
   \<and> sum_list [1/2, 1/2 :: real] = 1"
proof -
  have a: "''weight'' \<in> set canonical_columns" by (simp add: canonical_columns_def)
  have b: "group_rows ''yomiuri333'' (rows test_table) \<noteq> []" by (simp add: test_group)
  from resolve_weights_with_weight_column [OF a b, of no_parse] obtain ws
    where 1: "resolve_weights no_parse canonical_columns
        (group_rows ''yomiuri333'' (rows test_table)) = Inr ws" and 2: "sum_list ws = 1"
    by blast
  from 1 test_weights have "ws = [1/2, 1/2]" by simp
  with 2 a b test_weights show ?thesis by simp
qed

text \<open>
  A row that states no weight beside rows that do counts with 0: of three rows with the
  weights 1, none and 3 the resolved weights are a quarter, 0 and three quarters.
\<close>

lemma resolve_weights_fills_missing_with_zero:
  "resolve_weights no_parse canonical_columns partly_weighted_rows = Inr [1/4, 0, 3/4]
   \<and> resolve_weights_spec no_parse partly_weighted_rows = [1/4, 0, 3/4]"
  by (simp add: resolve_weights_def resolve_weights_spec_def stated_or_zero_def
      canonical_columns_def partly_weighted_rows_def weighted_row_def Let_def fillna_def)

text \<open>
  Claim C7.  The claim gives every non-empty index group resolved weights that sum to 1,
  with the equal weight 1 for every row when no weight is stated.  The table
  \<open>weightless_table\<close> has the index and sector columns, which is all that
  \<^verbatim>\<open>compute_concentration_metrics\<close> requires, and one row; it has no weight column.  For
  its group the specification gives the single weight 1.  The code raises
  \<^verbatim>\<open>AttributeError\<close>: \<^verbatim>\<open>subset.get("weight")\<close> is \<^verbatim>\<open>None\<close>, \<^verbatim>\<open>pd.to_numeric\<close> returns a scalar
  for it, and line 24 calls \<^verbatim>\<open>notna\<close> on that scalar.
\<close>

theorem resolve_weights_raises_without_weight_column:
  "''index'' \<in> set (columns weightless_table) \<and> ''sector'' \<in> set (columns weightless_table)
   \<and> ''weight'' \<notin> set (columns weightless_table)
   \<and> group_rows ''a'' (rows weightless_table) = rows weightless_table
   \<and> length (rows weightless_table) = 1
   \<and> resolve_weights_spec no_parse (group_rows ''a'' (rows weightless_table)) = [1]
   \<and> resolve_weights no_parse (columns weightless_table) (group_rows ''a'' (rows weightless_table))
       = Inl AttributeError
   \<and> compute_concentration_metrics no_parse weightless_table = Inl AttributeError"
  by (simp add: weightless_table_def group_rows_def resolve_weights_spec_def stated_or_zero_def
      resolve_weights_def compute_concentration_metrics_def groupby_index_def group_keys_def
      List.map_filter_def Let_def)

text \<open>
  Claim C5, amended.  On a canonical table all three modules return, and for every index
  group the PBR count is the number of rows of the group with a PBR value, the ROE count
  the number of rows of the group with a ROE value, and the constituent count of the
  sector-HHI module the number of all rows of the group, whether or not their sector or
  weight is missing.
\<close>

theorem stats_counts_match_rows:
  assumes "canonical_table t" and "k \<in> set (group_keys (rows t))"
  shows "\<exists>mp mr mh. compute_pbr_stats parse t = Inr mp
     \<and> compute_roe_stats parse t = Inr mr
     \<and> compute_concentration_metrics parse t = Inr mh
     \<and> map_of (pbr_count mp) k = Some (non_missing r_pbr (group_rows k (rows t)))
     \<and> map_of (roe_count mr) k = Some (non_missing r_roe (group_rows k (rows t)))
     \<and> map_of (hhi_constituents mh) k = Some (length (group_rows k (rows t)))"
proof -
  from assms(1) have cols: "''index'' \<in> set (columns t)" "''pbr'' \<in> set (columns t)"
    "''roe'' \<in> set (columns t)" "''sector'' \<in> set (columns t)" "''weight'' \<in> set (columns t)"
    by (auto simp: canonical_table_def canonical_columns_def)
  from assms(1) have num: "\<And>r. r \<in> set (rows t) \<Longrightarrow> numeric_cell (r_pbr r) \<and> numeric_cell (r_roe r)"
    by (auto simp: canonical_table_def list_all_iff)
  obtain mp where mp: "compute_pbr_stats parse t = Inr mp"
    using cols by (auto simp: compute_pbr_stats_def)
  obtain mr where mr: "compute_roe_stats parse t = Inr mr"
    using cols by (auto simp: compute_roe_stats_def)
  from compute_hhi_lookup [OF cols(1,4,5), of parse] assms(2) obtain mh
    where mh: "compute_concentration_metrics parse t = Inr mh"
      and c: "map_of (hhi_constituents mh) k = Some (length (group_rows k (rows t)))"
    by auto
  have p: "filter (\<lambda>r. to_numeric parse (r_pbr r) \<noteq> None) (group_rows k (rows t))
      = filter (\<lambda>r. r_pbr r \<noteq> None) (group_rows k (rows t))"
  proof (rule filter_cong [OF refl])
    fix r assume "r \<in> set (group_rows k (rows t))"
    then have "r \<in> set (rows t)" by (simp add: group_rows_def)
    from num [OF this] show "(to_numeric parse (r_pbr r) \<noteq> None) = (r_pbr r \<noteq> None)"
      using to_numeric_numeric_cell by blast
  qed
  have r: "filter (\<lambda>r. to_numeric parse (r_roe r) \<noteq> None) (group_rows k (rows t))
      = filter (\<lambda>r. r_roe r \<noteq> None) (group_rows k (rows t))"
  proof (rule filter_cong [OF refl])
    fix r assume "r \<in> set (group_rows k (rows t))"
    then have "r \<in> set (rows t)" by (simp add: group_rows_def)
    from num [OF this] show "(to_numeric parse (r_roe r) \<noteq> None) = (r_roe r \<noteq> None)"
      using to_numeric_numeric_cell by blast
  qed
  have pc: "map_of (pbr_count mp) k = Some (non_missing r_pbr (group_rows k (rows t)))"
    unfolding non_missing_def by (simp only: pbr_count_lookup [OF mp] assms(2) if_True p)
  have rc: "map_of (roe_count mr) k = Some (non_missing r_roe (group_rows k (rows t)))"
    unfolding non_missing_def by (simp only: roe_count_lookup [OF mr] assms(2) if_True r)
  show ?thesis
    using mp mr mh pc rc c by blast
qed

lemma test_canonical: "canonical_table test_table"
  by (simp add: canonical_table_def test_table_def test_row_def numeric_cell_def)

theorem stats_counts_match_rows_witness:
  "canonical_table test_table \<and> ''yomiuri333'' \<in> set (group_keys (rows test_table))
   \<and> (\<exists>mp mr mh. compute_pbr_stats no_parse test_table = Inr mp
        \<and> compute_roe_stats no_parse test_table = Inr mr
        \<and> compute_concentration_metrics no_parse test_table = Inr mh
        \<and> map_of (pbr_count mp) ''yomiuri333'' = Some 2
        \<and> map_of (roe_count mr) ''yomiuri333'' = Some 2
        \<and> map_of (hhi_constituents mh) ''yomiuri333'' = Some 2)"
proof -
  have n: "non_missing r_pbr (group_rows ''yomiuri333'' (rows test_table)) = 2"
    "non_missing r_roe (group_rows ''yomiuri333'' (rows test_table)) = 2"
    "length (group_rows ''yomiuri333'' (rows test_table)) = 2"
    unfolding test_group by (simp_all add: non_missing_def test_row_def)
  from stats_counts_match_rows [OF test_canonical test_keys, of no_parse] show ?thesis
    using test_canonical test_keys by (simp add: n)
qed

text \<open>
  Claim C5, as stated, makes every reported count the number of rows with a value in the
  module's column.  The sector-HHI module counts every row: a group whose only row has
  neither sector nor weight has one constituent.
\<close>

theorem hhi_constituents_counts_missing_sector:
  "canonical_table unknown_sector_table
   \<and> compute_concentration_metrics no_parse unknown_sector_table =
       Inr \<lparr>hhi_hhi = [(''a'', 1)], hhi_top10_weight = [(''a'', 1)],
            hhi_constituents = [(''a'', 1)]\<rparr>
   \<and> non_missing r_sector (group_rows ''a'' (rows unknown_sector_table)) = 0
   \<and> non_missing r_weight (group_rows ''a'' (rows unknown_sector_table)) = 0"
  by (simp add: canonical_table_def unknown_sector_table_def canonical_columns_def numeric_cell_def
      compute_concentration_metrics_def groupby_index_def group_keys_def group_rows_def
      List.map_filter_def resolve_weights_def Let_def fillna_def hhi_value_def top10_value_def
      sector_series_def groupby_sum_def non_missing_def)

text \<open>
  Claim C8, amended.  The PBR module raises its validation error exactly when the index
  or the pbr column is absent, the ROE module exactly when the index or the roe column is
  absent, and both return otherwise.  The sector-HHI module raises a validation error
  exactly when the index or the sector column is absent; it does not validate the weight
  column.
\<close>

theorem stats_validation_errors:
  "(''index'' \<notin> set (columns t) \<or> ''pbr'' \<notin> set (columns t)
      \<longrightarrow> (\<exists>msg. compute_pbr_stats parse t = Inl (ValueError msg)))
   \<and> (''index'' \<in> set (columns t) \<and> ''pbr'' \<in> set (columns t)
      \<longrightarrow> (\<exists>m. compute_pbr_stats parse t = Inr m))
   \<and> (''index'' \<notin> set (columns t) \<or> ''roe'' \<notin> set (columns t)
      \<longrightarrow> (\<exists>msg. compute_roe_stats parse t = Inl (ValueError msg)))
   \<and> (''index'' \<in> set (columns t) \<and> ''roe'' \<in> set (columns t)
      \<longrightarrow> (\<exists>m. compute_roe_stats parse t = Inr m))
   \<and> (''index'' \<notin> set (columns t) \<or> ''sector'' \<notin> set (columns t)
      \<longrightarrow> (\<exists>msg. compute_concentration_metrics parse t = Inl (ValueError msg)))
   \<and> (''index'' \<in> set (columns t) \<and> ''sector'' \<in> set (columns t)
      \<longrightarrow> (\<forall>msg. compute_concentration_metrics parse t \<noteq> Inl (ValueError msg)))"
proof -
  have "compute_concentration_metrics parse t \<noteq> Inl (ValueError msg)"
    if "''index'' \<in> set (columns t)" "''sector'' \<in> set (columns t)" for msg
    using that hhi_groups_Inl [of parse "columns t"
        "\<lparr>hhi_hhi = [], hhi_top10_weight = [], hhi_constituents = []\<rparr>" "groupby_index (rows t)"
        "ValueError msg"]
    by (auto simp: compute_concentration_metrics_def)
  then show ?thesis
    by (auto simp: compute_pbr_stats_def compute_roe_stats_def compute_concentration_metrics_def)
qed

theorem stats_validation_errors_witness:
  "''roe'' \<notin> set (columns no_weight_table)
   \<and> (\<exists>msg. compute_roe_stats no_parse no_weight_table = Inl (ValueError msg))
   \<and> ''index'' \<in> set (columns no_weight_table) \<and> ''pbr'' \<in> set (columns no_weight_table)
   \<and> (\<exists>m. compute_pbr_stats no_parse no_weight_table = Inr m)
   \<and> ''sector'' \<in> set (columns no_weight_table)
   \<and> (\<forall>msg. compute_concentration_metrics no_parse no_weight_table \<noteq> Inl (ValueError msg))"
  using stats_validation_errors [of no_weight_table no_parse]
  by (simp add: no_weight_table_def)

text \<open>
  Claim C8, as stated, lets the sector-HHI module fail with a validation error on a table
  without a weight column.  The module checks only the index and sector columns: on a
  table (here one without rows) that has them and no weight column it returns.
\<close>

theorem hhi_accepts_table_without_weight:
  "''weight'' \<notin> set (columns no_weight_table)
   \<and> compute_concentration_metrics no_parse no_weight_table =
       Inr \<lparr>hhi_hhi = [], hhi_top10_weight = [], hhi_constituents = []\<rparr>"
  by (simp add: no_weight_table_def compute_concentration_metrics_def groupby_index_def
      group_keys_def List.map_filter_def)

section \<open>Safe access to metrics\<close>

lemma access_obj_Raised:
  "access_obj builtin obj a = Raised e \<Longrightarrow> \<exists>v. obj = Leaf v"
  by (cases a; cases obj) (auto split: if_splits)

lemma access_obj_Own:
  "access_obj builtin obj a = Own_attribute \<Longrightarrow> \<exists>item. a = Attr item \<and> has_attribute builtin obj item"
  by (cases a; cases obj) (auto split: if_splits)

lemma run_accesses_Raised:
  "run_accesses builtin obj path = Raised e \<Longrightarrow>
     \<exists>p a rest v. path = p @ a # rest \<and> run_accesses builtin obj p = Returned (Leaf v)"
proof (induction path arbitrary: obj)
  case Nil
  then show ?case by simp
next
  case (Cons a path)
  show ?case
  proof (cases "access_obj builtin obj a")
    case (Returned obj')
    with Cons.prems have "run_accesses builtin obj' path = Raised e" by simp
    from Cons.IH [OF this] obtain p b rest v
      where "path = p @ b # rest" and "run_accesses builtin obj' p = Returned (Leaf v)" by blast
    then have "a # path = (a # p) @ b # rest
        \<and> run_accesses builtin obj (a # p) = Returned (Leaf v)"
      using Returned by simp
    then show ?thesis by blast
  next
    case (Raised e')
    from access_obj_Raised [OF this] obtain v where "obj = Leaf v" by blast
    then have "a # path = [] @ a # path \<and> run_accesses builtin obj [] = Returned (Leaf v)"
      by simp
    then show ?thesis by blast
  next
    case Own_attribute
    with Cons.prems show ?thesis by simp
  qed
qed

lemma run_accesses_Own:
  "run_accesses builtin obj path = Own_attribute \<Longrightarrow>
     \<exists>p item rest obj'. path = p @ Attr item # rest
        \<and> run_accesses builtin obj p = Returned obj' \<and> has_attribute builtin obj' item"
proof (induction path arbitrary: obj)
  case Nil
  then show ?case by simp
next
  case (Cons a path)
  show ?case
  proof (cases "access_obj builtin obj a")
    case (Returned obj')
    with Cons.prems have "run_accesses builtin obj' path = Own_attribute" by simp
    from Cons.IH [OF this] obtain p item rest obj''
      where "path = p @ Attr item # rest" and "run_accesses builtin obj' p = Returned obj''"
        and "has_attribute builtin obj'' item" by blast
    then have "a # path = (a # p) @ Attr item # rest
        \<and> run_accesses builtin obj (a # p) = Returned obj'' \<and> has_attribute builtin obj'' item"
      using Returned by simp
    then show ?thesis by blast
  next
    case (Raised e')
    with Cons.prems show ?thesis by simp
  next
    case Own_attribute
    from access_obj_Own [OF this] obtain item
      where "a = Attr item" and "has_attribute builtin obj item" by blast
    then have "a # path = [] @ Attr item # path
        \<and> run_accesses builtin obj [] = Returned obj \<and> has_attribute builtin obj item"
      by simp
    then show ?thesis by blast
  qed
qed

lemma access_obj_reaches:
  "reaches_getattr builtin obj a \<Longrightarrow> \<forall>v. obj \<noteq> Leaf v \<Longrightarrow>
     \<exists>obj'. access_obj builtin obj a = Returned obj'"
  by (cases a; cases obj) auto

lemma access_obj_not_reaches:
  "\<not> reaches_getattr builtin obj a \<Longrightarrow> access_obj builtin obj a = Own_attribute"
  by (cases a) auto

lemma access_obj_missing:
  "reaches_getattr builtin MissingValue a \<Longrightarrow> access_obj builtin MissingValue a = Returned MissingValue"
  by (cases a) auto

lemma run_accesses_missing:
  "list_all (reaches_getattr builtin MissingValue) path \<Longrightarrow>
     run_accesses builtin MissingValue path = Returned MissingValue"
  by (induction path) (simp_all add: access_obj_missing)

lemma accessor_getattr_cases:
  "(map_of d item = None \<or> map_of d item = Some JNull \<longrightarrow> accessor_getattr d item = MissingValue)
   \<and> (map_of d item = Some (JObj d') \<longrightarrow> accessor_getattr d item = wrap_metrics (Some d'))
   \<and> (map_of d item = Some v \<and> v \<noteq> JNull \<and> (\<forall>d'. v \<noteq> JObj d')
        \<longrightarrow> (\<exists>l. accessor_getattr d item = Leaf l \<and> leaf_json l = v))"
  by (cases v) (auto simp: accessor_getattr_def wrap_metrics_def)

text \<open>
  Claim C10, amended.  An access reaches the code of the classes when it is an item
  access, or an attribute access whose name the object does not itself have (as
  \<^verbatim>\<open>to_dict\<close>, \<^verbatim>\<open>_data\<close> and the special names are on an accessor).  Such an access on the
  accessor returned by \<^verbatim>\<open>wrap_metrics\<close> returns an object; any other access on it returns
  the attribute of that name and does not raise.  A chain of accesses raises only when
  one of its accesses is applied to a value that an earlier access returned unchanged,
  and it leaves the accessors, sentinels and values only by an attribute access whose
  name the object at that point has.  An absent or null entry gives the
  \<^verbatim>\<open>MissingValue\<close> sentinel, which is falsy, has the empty string as its text and returns
  itself under every chain of accesses that reach its code; a nested dictionary is
  wrapped again, and any other value is returned unchanged.
\<close>

theorem accessor_raises_only_after_leaf:
  "(reaches_getattr builtin (wrap_metrics data) a
      \<longrightarrow> (\<exists>obj. access_obj builtin (wrap_metrics data) a = Returned obj))
   \<and> (\<not> reaches_getattr builtin (wrap_metrics data) a
      \<longrightarrow> access_obj builtin (wrap_metrics data) a = Own_attribute)
   \<and> (run_accesses builtin (wrap_metrics data) path = Raised e \<longrightarrow>
        (\<exists>p b rest v. path = p @ b # rest
           \<and> run_accesses builtin (wrap_metrics data) p = Returned (Leaf v)))
   \<and> (run_accesses builtin (wrap_metrics data) path = Own_attribute \<longrightarrow>
        (\<exists>p item rest obj. path = p @ Attr item # rest
           \<and> run_accesses builtin (wrap_metrics data) p = Returned obj
           \<and> has_attribute builtin obj item))
   \<and> (map_of d item = None \<or> map_of d item = Some JNull \<longrightarrow> accessor_getattr d item = MissingValue)
   \<and> \<not> truthy MissingValue \<and> MissingValue_str = ''''
   \<and> (list_all (reaches_getattr builtin MissingValue) path
        \<longrightarrow> run_accesses builtin MissingValue path = Returned MissingValue)
   \<and> (map_of d item = Some (JObj d') \<longrightarrow> accessor_getattr d item = wrap_metrics (Some d'))
   \<and> (map_of d item = Some v \<and> v \<noteq> JNull \<and> (\<forall>d'. v \<noteq> JObj d')
        \<longrightarrow> (\<exists>l. accessor_getattr d item = Leaf l \<and> leaf_json l = v))"
proof -
  have "reaches_getattr builtin (wrap_metrics data) a
      \<longrightarrow> (\<exists>obj. access_obj builtin (wrap_metrics data) a = Returned obj)"
    using access_obj_reaches [of builtin "wrap_metrics data" a]
    by (simp add: wrap_metrics_def MetricAccessor_def)
  then show ?thesis
    using run_accesses_Raised [of builtin "wrap_metrics data" path e]
      run_accesses_Own [of builtin "wrap_metrics data" path]
      run_accesses_missing [of builtin path]
      access_obj_not_reaches [of builtin "wrap_metrics data" a]
      accessor_getattr_cases [of d item d' v]
    by (simp add: MissingValue_str_def)
qed

theorem accessor_raises_only_after_leaf_witness:
  "\<forall>builtin.
     reaches_getattr builtin (wrap_metrics (Some leaf_doc)) (Item ''a'')
     \<and> access_obj builtin (wrap_metrics (Some leaf_doc)) (Item ''a'') = Returned (Leaf (LNum 1))
     \<and> \<not> reaches_getattr builtin (wrap_metrics (Some leaf_doc)) (Attr ''to_dict'')
     \<and> access_obj builtin (wrap_metrics (Some leaf_doc)) (Attr ''to_dict'') = Own_attribute
     \<and> run_accesses builtin (wrap_metrics (Some leaf_doc)) [Item ''a'', Item ''b''] = Raised TypeError
     \<and> (\<exists>p b rest v. [Item ''a'', Item ''b''] = p @ b # rest
          \<and> run_accesses builtin (wrap_metrics (Some leaf_doc)) p = Returned (Leaf v))
     \<and> run_accesses builtin (wrap_metrics (Some leaf_doc)) [Item ''b'', Attr ''__str__''] = Own_attribute
     \<and> (\<exists>p item rest obj. [Item ''b'', Attr ''__str__''] = p @ Attr item # rest
          \<and> run_accesses builtin (wrap_metrics (Some leaf_doc)) p = Returned obj
          \<and> has_attribute builtin obj item)
     \<and> list_all (reaches_getattr builtin MissingValue) [Item ''a'', Item ''b'']
     \<and> run_accesses builtin MissingValue [Item ''a'', Item ''b''] = Returned MissingValue
     \<and> map_of leaf_doc ''b'' = None \<and> accessor_getattr leaf_doc ''b'' = MissingValue
     \<and> map_of leaf_doc ''a'' = Some (JNum 1)
     \<and> (\<exists>l. accessor_getattr leaf_doc ''a'' = Leaf l \<and> leaf_json l = JNum 1)"
proof
  fix builtin :: lookup
  have acc: "wrap_metrics (Some leaf_doc) = Accessor leaf_doc"
    by (simp add: wrap_metrics_def MetricAccessor_def)
  have g: "accessor_getattr leaf_doc ''a'' = Leaf (LNum 1)"
    "accessor_getattr leaf_doc ''b'' = MissingValue"
    by (simp_all add: leaf_doc_def accessor_getattr_def)
  have m: "map_of leaf_doc ''b'' = None" "map_of leaf_doc ''a'' = Some (JNum 1)"
    by (simp_all add: leaf_doc_def)
  have r1: "run_accesses builtin (wrap_metrics (Some leaf_doc)) [Item ''a'', Item ''b'']
      = Raised TypeError"
    by (simp add: acc g)
  have r2: "run_accesses builtin (wrap_metrics (Some leaf_doc)) [Item ''b'', Attr ''__str__'']
      = Own_attribute"
    by (simp add: acc g has_attribute_def)
  have r3: "\<not> reaches_getattr builtin (wrap_metrics (Some leaf_doc)) (Attr ''to_dict'')"
    by (simp add: acc has_attribute_def)
  from accessor_raises_only_after_leaf [of builtin "Some leaf_doc" "Item ''a''"
      "[Item ''a'', Item ''b'']" TypeError leaf_doc "''b''"]
  have 1: "\<exists>p b rest v. [Item ''a'', Item ''b''] = p @ b # rest
      \<and> run_accesses builtin (wrap_metrics (Some leaf_doc)) p = Returned (Leaf v)"
    and 2: "run_accesses builtin MissingValue [Item ''a'', Item ''b''] = Returned MissingValue"
    using r1 by simp_all
  from accessor_raises_only_after_leaf [of builtin "Some leaf_doc" "Attr ''to_dict''"
      "[Item ''b'', Attr ''__str__'']" _ leaf_doc "''a''" _ "JNum 1"]
  have 3: "access_obj builtin (wrap_metrics (Some leaf_doc)) (Attr ''to_dict'') = Own_attribute"
    and 4: "\<exists>p item rest obj. [Item ''b'', Attr ''__str__''] = p @ Attr item # rest
      \<and> run_accesses builtin (wrap_metrics (Some leaf_doc)) p = Returned obj
      \<and> has_attribute builtin obj item"
    and 5: "\<exists>l. accessor_getattr leaf_doc ''a'' = Leaf l \<and> leaf_json l = JNum 1"
    using r2 r3 m by simp_all
  show "reaches_getattr builtin (wrap_metrics (Some leaf_doc)) (Item ''a'')
     \<and> access_obj builtin (wrap_metrics (Some leaf_doc)) (Item ''a'') = Returned (Leaf (LNum 1))
     \<and> \<not> reaches_getattr builtin (wrap_metrics (Some leaf_doc)) (Attr ''to_dict'')
     \<and> access_obj builtin (wrap_metrics (Some leaf_doc)) (Attr ''to_dict'') = Own_attribute
     \<and> run_accesses builtin (wrap_metrics (Some leaf_doc)) [Item ''a'', Item ''b''] = Raised TypeError
     \<and> (\<exists>p b rest v. [Item ''a'', Item ''b''] = p @ b # rest
          \<and> run_accesses builtin (wrap_metrics (Some leaf_doc)) p = Returned (Leaf v))
     \<and> run_accesses builtin (wrap_metrics (Some leaf_doc)) [Item ''b'', Attr ''__str__''] = Own_attribute
     \<and> (\<exists>p item rest obj. [Item ''b'', Attr ''__str__''] = p @ Attr item # rest
          \<and> run_accesses builtin (wrap_metrics (Some leaf_doc)) p = Returned obj
          \<and> has_attribute builtin obj item)
     \<and> list_all (reaches_getattr builtin MissingValue) [Item ''a'', Item ''b'']
     \<and> run_accesses builtin MissingValue [Item ''a'', Item ''b''] = Returned MissingValue
     \<and> map_of leaf_doc ''b'' = None \<and> accessor_getattr leaf_doc ''b'' = MissingValue
     \<and> map_of leaf_doc ''a'' = Some (JNum 1)
     \<and> (\<exists>l. accessor_getattr leaf_doc ''a'' = Leaf l \<and> leaf_json l = JNum 1)"
    using 1 2 3 4 5 r1 r2 r3 m g by (simp add: acc)
qed

text \<open>
  Claim C10, as stated, lets no chain of accesses raise and lets the sentinel return
  itself under any attribute access.  Whatever the interpreter's lookup finds: the entry
  \<open>a\<close> of the document is a number and is returned as it is, and the next item access is
  Python's own on a number and raises \<^verbatim>\<open>TypeError\<close>; and \<^verbatim>\<open>__str__\<close> is a method of the
  sentinel, so that the attribute access of that name returns the bound method and not
  the sentinel.
\<close>

theorem access_past_leaf_raises:
  "\<forall>builtin.
     run_accesses builtin (wrap_metrics (Some leaf_doc)) [Item ''a'', Item ''b''] = Raised TypeError
     \<and> access_obj builtin MissingValue (Attr ''__str__'') = Own_attribute
     \<and> access_obj builtin MissingValue (Attr ''__str__'') \<noteq> Returned MissingValue"
  by (simp add: wrap_metrics_def MetricAccessor_def leaf_doc_def accessor_getattr_def
      has_attribute_def)

section \<open>Deduplication of the financial records\<close>

text \<open>
  What lines 140-143 keep of the financial records of one index and code: exactly one
  record, the last in the order of the date with the missing dates last.  So an undated
  record is kept whenever the group has one, and the latest dated record is kept only
  when every record of the group is dated.
\<close>

lemma filter_key_not_in_image: "k \<notin> key ` set xs \<Longrightarrow> filter (\<lambda>x. key x = k) xs = []"
  by (induction xs) auto

lemma sorted_le_last: "sorted xs \<Longrightarrow> x \<in> set xs \<Longrightarrow> x \<le> last xs"
  by (induction xs) auto

lemma filter_drop_duplicates_last:
  "filter (\<lambda>x. key x = k) (drop_duplicates_last key xs) =
     (if k \<in> key ` set xs then [last (filter (\<lambda>x. key x = k) xs)] else [])"
proof (induction xs)
  case Nil
  then show ?case by simp
next
  case (Cons x xs)
  show ?case
  proof (cases "key x \<in> key ` set xs")
    case True
    have "last (x # filter (\<lambda>x. key x = k) xs) = last (filter (\<lambda>x. key x = k) xs)"
      if "key x = k"
    proof -
      from True that obtain y where "y \<in> set xs" "key y = k" by auto
      then have "filter (\<lambda>x. key x = k) xs \<noteq> []" by (auto simp: filter_empty_conv)
      then show ?thesis by simp
    qed
    with True Cons.IH show ?thesis by auto
  next
    case False
    have "filter (\<lambda>x. key x = k) xs = []" if "key x = k"
      using False that by (simp add: filter_key_not_in_image)
    with False Cons.IH show ?thesis by auto
  qed
qed

lemma sorted_filter_last:
  assumes "sorted (map K ys)" and "y \<in> set ys" and "P y"
  shows "K y \<le> K (last (filter P ys))"
proof -
  have ne: "filter P ys \<noteq> []"
    using assms(2,3) by (auto simp: filter_empty_conv)
  have s: "sorted (map K (filter P ys))"
    using assms(1) by (rule sorted_filter)
  have "K y \<in> set (map K (filter P ys))"
    using assms(2,3) by simp
  with s have "K y \<le> last (map K (filter P ys))"
    by (rule sorted_le_last)
  then show ?thesis
    using ne by (simp add: last_map)
qed

lemma deduplicate_keeps_greatest_date_key:
  assumes "f \<in> set fs"
  shows "\<exists>g. filter (\<lambda>h. financial_key h = financial_key f) (deduplicate fs) = [g]
     \<and> g \<in> set fs \<and> financial_key g = financial_key f
     \<and> na_last (f_date f) \<le> na_last (f_date g)"
proof -
  let ?K = "\<lambda>f. (na_last (f_index f), f_code f, na_last (f_date f))"
  let ?P = "\<lambda>h. financial_key h = financial_key f"
  let ?ys = "sort_key ?K fs"
  let ?g = "last (filter ?P ?ys)"
  have fk: "(\<lambda>f. (f_index f, f_code f)) = financial_key"
    by (simp add: financial_key_def fun_eq_iff)
  have mem: "f \<in> set ?ys" using assms by simp
  then have ne: "filter ?P ?ys \<noteq> []" by (auto simp: filter_empty_conv)
  have d: "filter ?P (deduplicate fs) = [?g]"
    unfolding deduplicate_def fk filter_drop_duplicates_last using mem by auto
  have "?g \<in> set (filter ?P ?ys)" using ne by (rule last_in_set)
  then have g: "?g \<in> set fs" "financial_key ?g = financial_key f" by auto
  have "?K f \<le> ?K ?g"
    by (rule sorted_filter_last [OF sorted_sort_key mem]) simp
  with g(2) have "na_last (f_date f) \<le> na_last (f_date ?g)"
    by (auto simp: financial_key_def)
  with d g show ?thesis by blast
qed

lemma undated_record_wins:
  assumes "f \<in> set fs" and "f_date f = None"
    and "g \<in> set (deduplicate fs)" and "financial_key g = financial_key f"
  shows "f_date g = None"
proof -
  from deduplicate_keeps_greatest_date_key [OF assms(1)] obtain g'
    where g': "filter (\<lambda>h. financial_key h = financial_key f) (deduplicate fs) = [g']"
      and le: "na_last (f_date f) \<le> na_last (f_date g')" by blast
  from assms(3,4) have "g \<in> set (filter (\<lambda>h. financial_key h = financial_key f) (deduplicate fs))"
    by simp
  with g' have "g = g'" by simp
  with le assms(2) show ?thesis
    by (cases "f_date g") (auto simp: na_last_def)
qed

lemma latest_dated_record_wins:
  assumes "f \<in> set fs" and "f_date f = Some d"
    and "g \<in> set (deduplicate fs)" and "financial_key g = financial_key f"
  shows "f_date g = None \<or> (\<exists>e. f_date g = Some e \<and> d \<le> e)"
proof -
  from deduplicate_keeps_greatest_date_key [OF assms(1)] obtain g'
    where g': "filter (\<lambda>h. financial_key h = financial_key f) (deduplicate fs) = [g']"
      and le: "na_last (f_date f) \<le> na_last (f_date g')" by blast
  from assms(3,4) have "g \<in> set (filter (\<lambda>h. financial_key h = financial_key f) (deduplicate fs))"
    by simp
  with g' have "g = g'" by simp
  with le assms(2) show ?thesis
    by (cases "f_date g") (auto simp: na_last_def)
qed

section \<open>The canonical builder\<close>

lemma set_drop_duplicates_last: "set (drop_duplicates_last key xs) \<subseteq> set xs"
  by (induction xs) auto

lemma keys_drop_duplicates_last: "key ` set (drop_duplicates_last key xs) = key ` set xs"
  by (induction xs) auto

lemma distinct_drop_duplicates_last: "distinct (map key (drop_duplicates_last key xs))"
proof (induction xs)
  case Nil
  then show ?case by simp
next
  case (Cons x xs)
  then show ?case
    using keys_drop_duplicates_last [of key xs] by auto
qed

lemma distinct_keys_deduplicate: "distinct (map financial_key (deduplicate fs))"
  unfolding deduplicate_def financial_key_def by (rule distinct_drop_duplicates_last)

lemma set_deduplicate: "set (deduplicate fs) \<subseteq> set fs"
  unfolding deduplicate_def
  using set_drop_duplicates_last [of "\<lambda>f. (f_index f, f_code f)"] by fastforce

lemma filter_key_distinct:
  "distinct (map g xs) \<Longrightarrow> filter (\<lambda>x. g x = k) xs = [] \<or> (\<exists>x. filter (\<lambda>x. g x = k) xs = [x])"
proof (induction xs)
  case Nil
  then show ?case by simp
next
  case (Cons x xs)
  show ?case
  proof (cases "g x = k")
    case True
    from Cons.prems have nx: "g x \<notin> g ` set xs" by simp
    have "\<forall>y \<in> set xs. g y \<noteq> k"
    proof
      fix y assume "y \<in> set xs"
      then have "g y \<in> g ` set xs" by (rule imageI)
      with nx True show "g y \<noteq> k" by metis
    qed
    then have "filter (\<lambda>x. g x = k) xs = []" by (simp add: filter_empty_conv)
    with True show ?thesis by simp
  next
    case False
    with Cons show ?thesis by simp
  qed
qed

lemma matches_key: "matches c f \<longleftrightarrow> financial_key f = constituent_key c"
  by (auto simp: matches_def financial_key_def constituent_key_def)

lemma merge_left_distinct:
  assumes "distinct (map financial_key right)"
  shows "merge_left left right = map (\<lambda>c. (c, surviving_record right c)) left"
proof -
  have "(case filter (matches c) right of [] \<Rightarrow> [(c, None)] | ms \<Rightarrow> map (\<lambda>f. (c, Some f)) ms)
      = [(c, surviving_record right c)]" for c
  proof -
    have m: "filter (matches c) right = filter (\<lambda>f. financial_key f = constituent_key c) right"
      by (rule filter_cong) (simp_all add: matches_key)
    from filter_key_distinct [OF assms, of "constituent_key c"] show ?thesis
      unfolding surviving_record_def m by auto
  qed
  then show ?thesis
    unfolding merge_left_def by (induction left) simp_all
qed

lemma surviving_record_Some:
  "surviving_record fs c = Some f \<Longrightarrow> f \<in> set fs \<and> matches c f"
proof -
  assume a: "surviving_record fs c = Some f"
  then obtain rest where "filter (matches c) fs = f # rest"
    by (auto simp: surviving_record_def split: list.splits)
  then have "f \<in> set (filter (matches c) fs)" by simp
  then show ?thesis by simp
qed

lemma row_key_canonical_row: "row_key (canonical_row parse strftime (c, fo)) = constituent_key c"
  by (simp add: row_key_def canonical_row_def constituent_key_def)

lemma build_canonical_Inr:
  assumes "build_canonical parse strftime cr fr = Inr t"
  obtains cs fs where "normalize_constituents cr = Inr cs" "normalize_financials fr = Inr fs"
    "fs \<noteq> []"
    "t = \<lparr>columns = canonical_columns,
          rows = sort_key row_key (map (\<lambda>c. canonical_row parse strftime
                   (c, surviving_record (deduplicate fs) c)) cs)\<rparr>"
proof -
  from assms obtain cs fs where cs: "normalize_constituents cr = Inr cs"
    and fs: "normalize_financials fr = Inr fs" and ne: "fs \<noteq> []"
    and t: "t = \<lparr>columns = canonical_columns,
          rows = sort_key (\<lambda>r. (r_index r, r_code r)) (map (canonical_row parse strftime)
                   (merge_left cs (deduplicate fs)))\<rparr>"
    by (auto simp: build_canonical_def Let_def split: sum.splits if_splits)
  have k: "(\<lambda>r. (r_index r, r_code r)) = row_key"
    by (simp add: row_key_def fun_eq_iff)
  have "t = \<lparr>columns = canonical_columns,
          rows = sort_key row_key (map (\<lambda>c. canonical_row parse strftime
                   (c, surviving_record (deduplicate fs) c)) cs)\<rparr>"
    unfolding t k merge_left_distinct [OF distinct_keys_deduplicate] by (simp add: comp_def)
  with cs fs ne show ?thesis by (rule that)
qed

lemma build_canonical_total:
  assumes "normalize_constituents cr = Inr cs" "normalize_financials fr = Inr fs" "fs \<noteq> []"
  shows "build_canonical parse strftime cr fr =
     Inr \<lparr>columns = canonical_columns,
          rows = sort_key row_key (map (\<lambda>c. canonical_row parse strftime
                   (c, surviving_record (deduplicate fs) c)) cs)\<rparr>"
proof -
  have k: "(\<lambda>r. (r_index r, r_code r)) = row_key"
    by (simp add: row_key_def fun_eq_iff)
  show ?thesis
    unfolding build_canonical_def
    by (simp add: assms Let_def k merge_left_distinct [OF distinct_keys_deduplicate] comp_def)
qed

lemma distinct_map_insort_key:
  "distinct (map f (insort_key g x xs)) = (f x \<notin> f ` set xs \<and> distinct (map f xs))"
  by (induction xs) (auto simp: set_insort_key)

lemma distinct_map_sort_key: "distinct (map f (sort_key g xs)) = distinct (map f xs)"
  by (induction xs) (simp_all add: distinct_map_insort_key)

text \<open>
  Claim C4, amended.  For every pair of documents that \<^verbatim>\<open>build_canonical\<close> accepts, the
  rows of the table are sorted by index and code, and the table has for every pair of
  index and code as many rows as the constituents document has records of that pair;
  so the pairs of the table are pairwise distinct when those of the constituent records
  are.
\<close>

theorem canonical_rows_sorted_one_per_constituent_record:
  assumes "build_canonical parse strftime constituents_raw financials_raw = Inr t"
  shows "sorted (map row_key (rows t))
    \<and> (\<exists>constituents_df. normalize_constituents constituents_raw = Inr constituents_df
        \<and> (\<forall>k. length (filter (\<lambda>r. row_key r = k) (rows t))
                = length (filter (\<lambda>c. constituent_key c = k) constituents_df))
        \<and> (distinct (map constituent_key constituents_df) \<longrightarrow> distinct (map row_key (rows t))))"
proof -
  from assms obtain cs fs where cs: "normalize_constituents constituents_raw = Inr cs"
    and t: "t = \<lparr>columns = canonical_columns,
          rows = sort_key row_key (map (\<lambda>c. canonical_row parse strftime
                   (c, surviving_record (deduplicate fs) c)) cs)\<rparr>"
    by (rule build_canonical_Inr)
  let ?F = "\<lambda>c. canonical_row parse strftime (c, surviving_record (deduplicate fs) c)"
  have rows: "rows t = sort_key row_key (map ?F cs)" by (simp add: t)
  have keys: "map row_key (map ?F cs) = map constituent_key cs"
    by (simp add: row_key_canonical_row)
  have s: "sorted (map row_key (rows t))"
    unfolding rows by (rule sorted_sort_key)
  have n: "length (filter (\<lambda>r. row_key r = k) (rows t))
      = length (filter (\<lambda>c. constituent_key c = k) cs)" for k
    unfolding rows filter_sort length_sort
    by (simp add: filter_map comp_def row_key_canonical_row)
  have d: "distinct (map row_key (rows t)) = distinct (map constituent_key cs)"
    unfolding rows distinct_map_sort_key keys ..
  from s n d cs show ?thesis by blast
qed

lemmas build_defs =
  build_canonical_def normalize_constituents_def normalize_financials_def
  constituent_record_def financial_record_def constituent_index_def strip_def is_space_def
  deduplicate_def na_last_def merge_left_def matches_def canonical_row_def coerce_def fin_cell_def
  Let_def constituent_def financial_def canonical_1001_def no_parse_def

lemma strip_1001: "strip ''1001'' = ''1001''"
  by (simp add: strip_def is_space_def)

text \<open>
  Claim C1 (deduplication keeps the most recent record, a dated one in preference to an
  undated one).  With a dated and an undated financial record for the same index and
  code, in either order, the canonical row takes its values from the undated record: the
  sort puts the missing date last and \<^verbatim>\<open>keep="last"\<close> keeps it.  The PBR of the row is the
  undated record's 1.2, not the dated record's 0.8.
\<close>

theorem undated_record_survives_deduplication:
  "build_canonical no_parse day_number one_constituent dated_then_undated =
     Inr \<lparr>columns = canonical_columns, rows = [canonical_1001 None (Some (Number (12/10)))]\<rparr>
   \<and> build_canonical no_parse day_number one_constituent undated_then_dated =
     Inr \<lparr>columns = canonical_columns, rows = [canonical_1001 None (Some (Number (12/10)))]\<rparr>"
  by (simp add: build_defs one_constituent_def dated_then_undated_def undated_then_dated_def)

text \<open>
  Claim C4, as stated, gives every accepted input a table with one row per index and
  code.  The builder never deduplicates the constituents: a constituents document that
  lists a code twice gives two rows with the same index and code.
\<close>

theorem duplicate_constituents_give_duplicate_rows:
  "build_canonical no_parse day_number two_same_constituents one_financial =
     Inr \<lparr>columns = canonical_columns,
          rows = [canonical_1001 None (Some (Number (8/10))),
                  canonical_1001 None (Some (Number (8/10)))]\<rparr>"
  by (simp add: build_defs two_same_constituents_def one_financial_def)

lemma build_one: "build_canonical no_parse day_number one_constituent one_financial =
     Inr \<lparr>columns = canonical_columns, rows = [canonical_1001 None (Some (Number (8/10)))]\<rparr>"
  by (simp add: build_defs one_constituent_def one_financial_def)

theorem canonical_rows_sorted_one_per_constituent_record_witness:
  "build_canonical no_parse day_number one_constituent one_financial =
     Inr \<lparr>columns = canonical_columns, rows = [canonical_1001 None (Some (Number (8/10)))]\<rparr>
   \<and> sorted (map row_key [canonical_1001 None (Some (Number (8/10)))])
   \<and> length (filter (\<lambda>r. row_key r = (Some ''yomiuri333'', ''1001''))
        [canonical_1001 None (Some (Number (8/10)))]) = 1"
  using canonical_rows_sorted_one_per_constituent_record [OF build_one] build_one
  by (simp add: row_key_def canonical_1001_def)

lemma coerce_unparseable: "unparseable parse c \<Longrightarrow> coerce parse c = None"
  by (cases "(parse, c)" rule: to_numeric.cases) (auto simp: unparseable_def coerce_def)

text \<open>
  Claim C9, amended.  Whatever the cells hold, \<^verbatim>\<open>build_canonical\<close> returns when the two
  documents normalize and there is a financial record.  Every row of its table is built
  from a constituent record and the financial record that survives deduplication for its
  index and code.  An unparseable PBR, ROE, dividend yield or market capitalisation of
  that record leaves the cell of the row missing; an unparseable weight of that record
  leaves the weight missing when the constituent record states no weight.
\<close>

theorem unparseable_cells_become_missing:
  assumes "normalize_constituents constituents_raw = Inr constituents_df"
    and "normalize_financials financials_raw = Inr financials_df"
    and "financials_df \<noteq> []"
  shows "\<exists>t. build_canonical parse strftime constituents_raw financials_raw = Inr t
     \<and> (\<forall>r \<in> set (rows t). \<exists>c \<in> set constituents_df.
          r = canonical_row parse strftime (c, surviving_record (deduplicate financials_df) c)
          \<and> (\<forall>f. surviving_record (deduplicate financials_df) c = Some f \<longrightarrow>
                f \<in> set financials_df \<and> matches c f
                \<and> (unparseable parse (f_pbr f) \<longrightarrow> r_pbr r = None)
                \<and> (unparseable parse (f_roe f) \<longrightarrow> r_roe r = None)
                \<and> (unparseable parse (f_dy f) \<longrightarrow> r_dy r = None)
                \<and> (unparseable parse (f_market_cap f) \<longrightarrow> r_market_cap r = None)
                \<and> (unparseable parse (f_weight f) \<and> c_weight c = None \<longrightarrow> r_weight r = None)))"
proof -
  let ?S = "\<lambda>c. surviving_record (deduplicate financials_df) c"
  let ?F = "\<lambda>c. canonical_row parse strftime (c, ?S c)"
  let ?t = "\<lparr>columns = canonical_columns, rows = sort_key row_key (map ?F constituents_df)\<rparr>"
  have b: "build_canonical parse strftime constituents_raw financials_raw = Inr ?t"
    using assms by (rule build_canonical_total)
  have "\<exists>c \<in> set constituents_df. r = ?F c
          \<and> (\<forall>f. ?S c = Some f \<longrightarrow>
                f \<in> set financials_df \<and> matches c f
                \<and> (unparseable parse (f_pbr f) \<longrightarrow> r_pbr r = None)
                \<and> (unparseable parse (f_roe f) \<longrightarrow> r_roe r = None)
                \<and> (unparseable parse (f_dy f) \<longrightarrow> r_dy r = None)
                \<and> (unparseable parse (f_market_cap f) \<longrightarrow> r_market_cap r = None)
                \<and> (unparseable parse (f_weight f) \<and> c_weight c = None \<longrightarrow> r_weight r = None))"
    if "r \<in> set (rows ?t)" for r
  proof -
    from that obtain c where c: "c \<in> set constituents_df" and r: "r = ?F c" by auto
    have "f \<in> set financials_df \<and> matches c f
                \<and> (unparseable parse (f_pbr f) \<longrightarrow> r_pbr r = None)
                \<and> (unparseable parse (f_roe f) \<longrightarrow> r_roe r = None)
                \<and> (unparseable parse (f_dy f) \<longrightarrow> r_dy r = None)
                \<and> (unparseable parse (f_market_cap f) \<longrightarrow> r_market_cap r = None)
                \<and> (unparseable parse (f_weight f) \<and> c_weight c = None \<longrightarrow> r_weight r = None)"
      if f: "?S c = Some f" for f
    proof -
      from surviving_record_Some [OF f] set_deduplicate [of financials_df]
      have "f \<in> set financials_df" "matches c f" by auto
      then show ?thesis
        by (simp add: r f canonical_row_def fin_cell_def coerce_unparseable)
    qed
    with c r show ?thesis by blast
  qed
  with b show ?thesis by blast
qed

text \<open>
  Claim C9, as stated, makes the weight cell missing when the financial record's weight
  is unparseable.  The constituent weight takes precedence: with a constituent weight of
  one half the canonical weight is one half.
\<close>

theorem constituent_weight_hides_unparseable_weight:
  "unparseable no_parse (Some (Text ''n/a''))
   \<and> build_canonical no_parse day_number weighted_constituent unparseable_financial =
       Inr \<lparr>columns = canonical_columns, rows = [canonical_1001 (Some (Number (1/2))) None]\<rparr>"
  by (simp add: build_defs weighted_constituent_def unparseable_financial_def unparseable_def)

lemma normalize_one_constituent:
  "normalize_constituents one_constituent = Inr [constituent_1001]"
  by (simp add: build_defs one_constituent_def constituent_1001_def)

lemma normalize_unparseable_financial:
  "normalize_financials unparseable_financial = Inr [unparseable_row]"
  by (simp add: build_defs unparseable_financial_def unparseable_row_def)

theorem unparseable_cells_become_missing_witness:
  "normalize_constituents one_constituent = Inr [constituent_1001]
   \<and> normalize_financials unparseable_financial = Inr [unparseable_row]
   \<and> unparseable no_parse (f_pbr unparseable_row)
   \<and> unparseable no_parse (f_weight unparseable_row)
   \<and> c_weight constituent_1001 = None
   \<and> (\<exists>t. build_canonical no_parse day_number one_constituent unparseable_financial = Inr t
        \<and> list_all (\<lambda>r. r_pbr r = None \<and> r_weight r = None) (rows t))"
proof -
  have ne: "[unparseable_row] \<noteq> []" by simp
  have s: "surviving_record (deduplicate [unparseable_row]) constituent_1001 = Some unparseable_row"
    by (simp add: surviving_record_def deduplicate_def matches_def unparseable_row_def
        constituent_1001_def)
  have u: "unparseable no_parse (f_pbr unparseable_row)"
    "unparseable no_parse (f_weight unparseable_row)" "c_weight constituent_1001 = None"
    by (simp_all add: unparseable_def no_parse_def unparseable_row_def constituent_1001_def)
  from unparseable_cells_become_missing
    [OF normalize_one_constituent normalize_unparseable_financial ne, of no_parse day_number]
  obtain t where t: "build_canonical no_parse day_number one_constituent unparseable_financial = Inr t"
    and rs: "\<forall>r \<in> set (rows t). \<exists>c \<in> set [constituent_1001].
          r = canonical_row no_parse day_number (c, surviving_record (deduplicate [unparseable_row]) c)
          \<and> (\<forall>f. surviving_record (deduplicate [unparseable_row]) c = Some f \<longrightarrow>
                f \<in> set [unparseable_row] \<and> matches c f
                \<and> (unparseable no_parse (f_pbr f) \<longrightarrow> r_pbr r = None)
                \<and> (unparseable no_parse (f_roe f) \<longrightarrow> r_roe r = None)
                \<and> (unparseable no_parse (f_dy f) \<longrightarrow> r_dy r = None)
                \<and> (unparseable no_parse (f_market_cap f) \<longrightarrow> r_market_cap r = None)
                \<and> (unparseable no_parse (f_weight f) \<and> c_weight c = None \<longrightarrow> r_weight r = None))"
    by blast
  have "r_pbr r = None \<and> r_weight r = None" if "r \<in> set (rows t)" for r
  proof -
    from rs that have "\<forall>f. surviving_record (deduplicate [unparseable_row]) constituent_1001 = Some f \<longrightarrow>
                (unparseable no_parse (f_pbr f) \<longrightarrow> r_pbr r = None)
                \<and> (unparseable no_parse (f_weight f) \<and> c_weight constituent_1001 = None \<longrightarrow> r_weight r = None)"
      by fastforce
    with s u show ?thesis by blast
  qed
  then have "list_all (\<lambda>r. r_pbr r = None \<and> r_weight r = None) (rows t)"
    by (simp add: list_all_iff)
  with t u normalize_one_constituent normalize_unparseable_financial show ?thesis by blast
qed

end
